theory Spec2Isabelle
  imports Complex_Main "HOL-Library.Sublist" "HOL-Library.Extended_Nat"
begin

section \<open>The ClinVar pipeline driver (master.py)\<close>

text \<open>
  A shallow embedding of \<^verbatim>\<open>src/master.py\<close>, a Python 2 script (it mixes a tab
  with spaces at lines 40 and 66, which only Python 2 accepts). The script checks its
  dependencies, validates its command line, asks an FTP server whether the two ClinVar
  inputs changed, queues their downloads on a pypez job runner, and hands one long
  sequential job to the same runner.

  Everything the script does beyond computing values is explicit here: the local
  file system, the console and the network are fields of a \<open>world\<close> record that every
  effectful function takes and returns; an exception is a value of \<open>py_exc\<close>; the
  ways the process can end early are values of \<open>exit\<close>. What the script cannot
  control (which modules import, how the interpreter was started, what \<^verbatim>\<open>PATH\<close>
  holds, how the FTP server and the platform's time functions answer) is a record,
  \<open>environment\<close>; the tools themselves are files of the world.
\<close>

subsection \<open>Exceptions and process exits\<close>

text \<open>
  The exception classes this script can meet. \<open>IOError\<close> stands for
  \<^verbatim>\<open>socket.error\<close>, \<^verbatim>\<open>socket.timeout\<close> and \<^verbatim>\<open>socket.gaierror\<close> (its
  subclasses in Python 2), \<open>FtpError\<close> for the subclasses of \<^verbatim>\<open>ftplib.Error\<close>.
  The string is \<^verbatim>\<open>str(e)\<close>. All derive from \<^verbatim>\<open>Exception\<close> but
  \<open>KeyboardInterrupt\<close>, which derives from \<^verbatim>\<open>BaseException\<close> only.
\<close>

datatype py_exc =
    ImportError string
  | AssertionError string
  | ValueError string
  | TypeError string
  | IOError string
  | EOFError string
  | FtpError string
  | KeyboardInterrupt

fun is_Exception :: "py_exc \<Rightarrow> bool" where
  "is_Exception KeyboardInterrupt = False"
| "is_Exception _ = True"

fun exc_str :: "py_exc \<Rightarrow> string" where
  "exc_str (ImportError m) = m"
| "exc_str (AssertionError m) = m"
| "exc_str (ValueError m) = m"
| "exc_str (TypeError m) = m"
| "exc_str (IOError m) = m"
| "exc_str (EOFError m) = m"
| "exc_str (FtpError m) = m"
| "exc_str KeyboardInterrupt = []"

text \<open>
  How the process ends before its work is done: \<^verbatim>\<open>sys.exit(message)\<close> writes the
  message to stderr and exits with status 1; \<^verbatim>\<open>p.error(message)\<close> (argparse)
  writes the usage and the message and exits with status 2; an exception nobody
  catches prints a traceback and exits with status 1.
\<close>

datatype exit = SysExit string | ParserExit string | Uncaught py_exc

fun exit_status :: "exit \<Rightarrow> nat" where
  "exit_status (SysExit m) = 1"
| "exit_status (ParserExit m) = 2"
| "exit_status (Uncaught e) = 1"

subsection \<open>Python's string operations\<close>

text \<open>
  \<^verbatim>\<open>fmt % args\<close> for a tuple of strings, with the conversions the script writes:
  \<^verbatim>\<open>%s\<close> and \<^verbatim>\<open>%%\<close>. As in CPython, a conversion first takes its argument
  (TypeError when none is left) and only then looks at the conversion character
  (ValueError when it is not a conversion); arguments left over at the end are a
  TypeError. Flags, widths and mapping keys are not modelled: no positional format of
  the script uses them. The ValueError's message leaves out the character code and
  the index that CPython appends.
\<close>

fun py_format :: "string \<Rightarrow> string list \<Rightarrow> py_exc + string" where
  "py_format [] args =
     (if args = [] then Inr []
      else Inl (TypeError ''not all arguments converted during string formatting''))"
| "py_format [c] args =
     (if c = CHR ''%'' then Inl (ValueError ''incomplete format'')
      else (case py_format [] args of Inl e \<Rightarrow> Inl e | Inr r \<Rightarrow> Inr (c # r)))"
| "py_format (c # d # fmt) args =
     (if c \<noteq> CHR ''%'' then
        (case py_format (d # fmt) args of Inl e \<Rightarrow> Inl e | Inr r \<Rightarrow> Inr (c # r))
      else if d = CHR ''%'' then
        (case py_format fmt args of Inl e \<Rightarrow> Inl e | Inr r \<Rightarrow> Inr (CHR ''%'' # r))
      else
        (case args of
           [] \<Rightarrow> Inl (TypeError ''not enough arguments for format string'')
         | a # rest \<Rightarrow>
             if d = CHR ''s'' then
               (case py_format fmt rest of Inl e \<Rightarrow> Inl e | Inr r \<Rightarrow> Inr (a @ r))
             else Inl (ValueError (''unsupported format character '' @ [CHR 0x27, d, CHR 0x27]))))"

text \<open>\<^verbatim>\<open>posixpath.join(a, b)\<close>: an absolute \<open>b\<close> replaces \<open>a\<close>.\<close>

definition os_path_join :: "string \<Rightarrow> string \<Rightarrow> string" where
  "os_path_join a b =
     (if prefix ''/'' b then b
      else if a = [] \<or> suffix ''/'' a then a @ b
      else a @ ''/'' @ b)"

text \<open>\<^verbatim>\<open>s.endswith(t)\<close>.\<close>

definition endswith :: "string \<Rightarrow> string \<Rightarrow> bool" where
  "endswith s t = (length t \<le> length s \<and> drop (length s - length t) s = t)"

text \<open>
  Python's truth value of an optional command-line value: \<^verbatim>\<open>None\<close> (the flag was
  not given) and the empty string are both false.
\<close>

fun truthy :: "string option \<Rightarrow> bool" where
  "truthy None = False"
| "truthy (Some s) = (s \<noteq> [])"

subsection \<open>The world and its environment\<close>

text \<open>
  \<open>files\<close> maps the path of each regular file to its modification time
  (\<^verbatim>\<open>os.path.isfile\<close> is membership, \<^verbatim>\<open>os.path.getmtime\<close> the value). The time is
  a Python float, which may be negative (a file dated before 1970); Python compares an
  int with a float by their exact values, so a rational stands for it. \<open>stdout\<close>
  is the lines printed, \<open>net\<close> the FTP operations attempted, in order, and
  \<open>elapsed\<close> the seconds the process has spent blocked in them (\<open>\<infinity>\<close> when an
  operation never returns).
\<close>

datatype net_event =
    FtpConnect string nat
  | FtpLogin string
  | FtpSendcmd string string

fun is_connect :: "net_event \<Rightarrow> bool" where
  "is_connect (FtpConnect h t) = True"
| "is_connect _ = False"

record world =
  files :: "string \<rightharpoonup> rat"
  stdout :: "string list"
  net :: "net_event list"
  elapsed :: enat

definition isfile :: "world \<Rightarrow> string \<Rightarrow> bool" where
  "isfile w path = (files w path \<noteq> None)"

definition print_line :: "string \<Rightarrow> world \<Rightarrow> world" where
  "print_line s w = w\<lparr>stdout := stdout w @ [s]\<rparr>"

text \<open>
  The environment. \<open>import_module m\<close> is \<open>None\<close> when \<^verbatim>\<open>import m\<close> succeeds and
  the ImportError's message otherwise. \<open>optimize\<close> says that the interpreter runs
  with \<^verbatim>\<open>-O\<close> or \<^verbatim>\<open>PYTHONOPTIMIZE\<close>, which compiles every \<^verbatim>\<open>assert\<close>
  statement away. \<open>path_dirs\<close> is \<^verbatim>\<open>os.environ['PATH'].split(os.pathsep)\<close> (the
  variable is taken to be set). \<open>ftp_connect host timeout\<close> is what
  \<^verbatim>\<open>ftplib.FTP(host, timeout=...)\<close> raises, if anything, \<open>ftp_login\<close> and
  \<open>ftp_sendcmd\<close> the two methods called on the connection, and \<open>ftp_seconds\<close> how
  long each of these operations blocks. \<open>strptime_epoch s\<close> is
  \<^verbatim>\<open>int(datetime.strptime(s, "%Y%m%d%H%M%S").strftime("%s"))\<close>, which raises a
  ValueError on text that is not such a date and whose value depends on the local time
  zone; \<open>fromtimestamp_str t\<close> is \<^verbatim>\<open>str(datetime.fromtimestamp(t))\<close>.
\<close>

record environment =
  import_module :: "string \<Rightarrow> string option"
  optimize :: bool
  path_dirs :: "string list"
  ftp_connect :: "string \<Rightarrow> nat \<Rightarrow> py_exc option"
  ftp_login :: "string \<Rightarrow> py_exc option"
  ftp_sendcmd :: "string \<Rightarrow> string \<Rightarrow> py_exc + string"
  ftp_seconds :: "net_event \<Rightarrow> enat"
  strptime_epoch :: "string \<Rightarrow> py_exc + int"
  fromtimestamp_str :: "int \<Rightarrow> py_exc + string"

text \<open>
  One FTP operation: it is written to the log with the arguments it is called with, and
  the process is blocked for as long as it takes.
\<close>

definition net_op :: "environment \<Rightarrow> net_event \<Rightarrow> world \<Rightarrow> world" where
  "net_op env ev w = w\<lparr>net := net w @ [ev], elapsed := elapsed w + ftp_seconds env ev\<rparr>"

definition FTP :: "environment \<Rightarrow> string \<Rightarrow> nat \<Rightarrow> world \<Rightarrow> py_exc option \<times> world" where
  "FTP env host timeout w =
     (ftp_connect env host timeout, net_op env (FtpConnect host timeout) w)"

definition FTP_login :: "environment \<Rightarrow> string \<Rightarrow> world \<Rightarrow> py_exc option \<times> world" where
  "FTP_login env host w = (ftp_login env host, net_op env (FtpLogin host) w)"

definition FTP_sendcmd ::
  "environment \<Rightarrow> string \<Rightarrow> string \<Rightarrow> world \<Rightarrow> (py_exc + string) \<times> world" where
  "FTP_sendcmd env host cmd w = (ftp_sendcmd env host cmd, net_op env (FtpSendcmd host cmd) w)"

subsection \<open>Jobs and the job runner's queue\<close>

text \<open>
  What the script gives pypez: \<^verbatim>\<open>job.add(command, input_filenames=...,
  output_filenames=...)\<close> appends one command with its explicit file lists (empty
  when not given) to a job; \<^verbatim>\<open>pypez.Job(command)\<close> is a job of that one command;
  \<^verbatim>\<open>job_runner.add_parallel(job)\<close> appends a job to the runner's parallel queue,
  which \<^verbatim>\<open>pypez.JobRunner()\<close> creates empty.
\<close>

record CommandDescriptor =
  command :: string
  input_filenames :: "string list"
  output_filenames :: "string list"

type_synonym Job = "CommandDescriptor list"

definition add :: "Job \<Rightarrow> string \<Rightarrow> string list \<Rightarrow> string list \<Rightarrow> Job" where
  "add job c ins outs =
     job @ [\<lparr>command = c, input_filenames = ins, output_filenames = outs\<rparr>]"

definition Job_of :: "string \<Rightarrow> Job" where
  "Job_of c = add [] c [] []"

record JobRunner =
  parallel_queue :: "Job list"

definition JobRunner_new :: JobRunner where
  "JobRunner_new = \<lparr>parallel_queue = []\<rparr>"

definition add_parallel :: "JobRunner \<Rightarrow> Job \<Rightarrow> JobRunner" where
  "add_parallel jr j = jr\<lparr>parallel_queue := parallel_queue jr @ [j]\<rparr>"

subsection \<open>The freshness check\<close>

text \<open>
  The body of the \<^verbatim>\<open>try\<close> of \<^verbatim>\<open>get_remote_file_changed_time\<close> (lines 49 to 53):
  connect with a timeout of 3 seconds, log in, send \<^verbatim>\<open>MDTM path\<close>, and read the
  date that follows the first four characters of the reply. \<open>ftp_result\<close> is what the
  body returns or raises; it does not depend on the world the body starts in.
\<close>

definition ftp_query ::
  "environment \<Rightarrow> string \<Rightarrow> string \<Rightarrow> world \<Rightarrow> (py_exc + int) \<times> world" where
  "ftp_query env ftp_host ftp_path w =
     (case FTP env ftp_host 3 w of
        (Some e, w1) \<Rightarrow> (Inl e, w1)
      | (None, w1) \<Rightarrow>
          (case FTP_login env ftp_host w1 of
             (Some e, w2) \<Rightarrow> (Inl e, w2)
           | (None, w2) \<Rightarrow>
               (case FTP_sendcmd env ftp_host (''MDTM '' @ ftp_path) w2 of
                  (Inl e, w3) \<Rightarrow> (Inl e, w3)
                | (Inr response, w3) \<Rightarrow> (strptime_epoch env (drop 4 response), w3))))"

definition ftp_result :: "environment \<Rightarrow> string \<Rightarrow> string \<Rightarrow> py_exc + int" where
  "ftp_result env ftp_host ftp_path =
     fst (ftp_query env ftp_host ftp_path \<lparr>files = Map.empty, stdout = [], net = [], elapsed = 0\<rparr>)"

text \<open>
  \<^verbatim>\<open>get_remote_file_changed_time\<close> (lines 44 to 56). \<^verbatim>\<open>except Exception\<close>
  catches what derives from \<^verbatim>\<open>Exception\<close>, prints the error and returns 0;
  anything else propagates.
\<close>

definition get_remote_file_changed_time ::
  "environment \<Rightarrow> string \<Rightarrow> string \<Rightarrow> world \<Rightarrow> (py_exc + int) \<times> world" where
  "get_remote_file_changed_time env ftp_host ftp_path w =
     (case py_format ''Retrieving last-changed time for %s'' [os_path_join ftp_host ftp_path] of
        Inl e \<Rightarrow> (Inl e, w)
      | Inr line \<Rightarrow>
          (case ftp_query env ftp_host ftp_path (print_line line w) of
             (Inr t, w') \<Rightarrow> (Inr t, w')
           | (Inl e, w') \<Rightarrow>
               if is_Exception e then
                 (case py_format ''ERROR: retrieving last-changed time for %s: %s''
                         [os_path_join ftp_host ftp_path, exc_str e] of
                    Inl e' \<Rightarrow> (Inl e', w')
                  | Inr line' \<Rightarrow> (Inr 0, print_line line' w'))
               else (Inl e, w')))"

text \<open>
  \<^verbatim>\<open>download_if_changed\<close> (lines 59 to 66). The result is the exception raised, if
  any, the job runner as the call leaves it, and the world.
\<close>

definition local_changed_time :: "world \<Rightarrow> string \<Rightarrow> rat" where
  "local_changed_time w local_path =
     (case files w local_path of Some m \<Rightarrow> m | None \<Rightarrow> 0)"

definition download_if_changed ::
  "environment \<Rightarrow> JobRunner \<Rightarrow> string \<Rightarrow> string \<Rightarrow> string \<Rightarrow> world
     \<Rightarrow> py_exc option \<times> JobRunner \<times> world" where
  "download_if_changed env job_runner local_path ftp_host ftp_path w =
     (case get_remote_file_changed_time env ftp_host ftp_path w of
        (Inl e, w1) \<Rightarrow> (Some e, job_runner, w1)
      | (Inr remote_changed_time, w1) \<Rightarrow>
          (case py_format ''ftp://%s/%s'' [ftp_host, ftp_path] of
             Inl e \<Rightarrow> (Some e, job_runner, w1)
           | Inr ftp_address \<Rightarrow>
               if of_int remote_changed_time > local_changed_time w1 local_path then
                 (case py_format ''wget %s -O OUT:%s'' [ftp_address, local_path] of
                    Inl e \<Rightarrow> (Some e, job_runner, w1)
                  | Inr c \<Rightarrow> (None, add_parallel job_runner (Job_of c), w1))
               else
                 (case fromtimestamp_str env remote_changed_time of
                    Inl e \<Rightarrow> (Some e, job_runner, w1)
                  | Inr since \<Rightarrow>
                      (case py_format
                              ''Local copy of %s is up to date. The remote version hasn't changed since %s''
                              [ftp_address, since] of
                         Inl e \<Rightarrow> (Some e, job_runner, w1)
                       | Inr line \<Rightarrow> (None, job_runner, print_line line w1)))))"

subsection \<open>Start-up: dependencies and the command line\<close>

text \<open>
  Lines 7 to 21. The import of configargparse stands outside the \<^verbatim>\<open>try\<close>, so its
  failure is an uncaught ImportError; a failed import of pypez, pysam or pandas ends
  the process through \<^verbatim>\<open>sys.exit\<close>; a tool that \<^verbatim>\<open>find_executable\<close> does not
  find fails the \<^verbatim>\<open>assert\<close>, whose AssertionError nobody catches; when the
  interpreter optimizes, the \<^verbatim>\<open>assert\<close> is not there and the loop checks nothing.
  The imports of the standard library are taken to succeed.

  \<^verbatim>\<open>distutils.spawn.find_executable(executable)\<close> (Python 2.7, POSIX) returns the
  name itself when it is a file as it stands (that is, in the working directory), else
  the first \<^verbatim>\<open>os.path.join(p, executable)\<close> that is a file, for \<open>p\<close> in the
  directories of \<^verbatim>\<open>PATH\<close>, else \<^verbatim>\<open>None\<close>. \<open>on_path\<close> says that some
  directory of \<^verbatim>\<open>PATH\<close> holds the file.
\<close>

fun first_on_path :: "world \<Rightarrow> string list \<Rightarrow> string \<Rightarrow> string option" where
  "first_on_path w [] executable = None"
| "first_on_path w (p # ps) executable =
     (if isfile w (os_path_join p executable) then Some (os_path_join p executable)
      else first_on_path w ps executable)"

definition find_executable :: "environment \<Rightarrow> world \<Rightarrow> string \<Rightarrow> string option" where
  "find_executable env w executable =
     (if \<not> isfile w executable then first_on_path w (path_dirs env) executable
      else Some executable)"

definition on_path :: "environment \<Rightarrow> world \<Rightarrow> string \<Rightarrow> bool" where
  "on_path env w executable =
     list_ex (\<lambda>p. isfile w (os_path_join p executable)) (path_dirs env)"

fun first_import_error :: "environment \<Rightarrow> string list \<Rightarrow> string option" where
  "first_import_error env [] = None"
| "first_import_error env (m # ms) =
     (case import_module env m of
        Some msg \<Rightarrow> Some msg
      | None \<Rightarrow> first_import_error env ms)"

fun check_executables :: "environment \<Rightarrow> world \<Rightarrow> string list \<Rightarrow> exit option" where
  "check_executables env w [] = None"
| "check_executables env w (executable # rest) =
     (if optimize env then check_executables env w rest
      else if truthy (find_executable env w executable) then check_executables env w rest
      else
        (case py_format ''Command %s not found, see README'' [executable] of
           Inl e \<Rightarrow> Some (Uncaught e)
         | Inr msg \<Rightarrow> Some (Uncaught (AssertionError msg))))"

definition check_dependencies :: "environment \<Rightarrow> world \<Rightarrow> exit option" where
  "check_dependencies env w =
     (case import_module env ''configargparse'' of
        Some msg \<Rightarrow> Some (Uncaught (ImportError msg))
      | None \<Rightarrow>
          (case first_import_error env [''pypez'', ''pysam'', ''pandas''] of
             Some msg \<Rightarrow>
               (case py_format
                       ''ERROR: Python module not installed. %s. Please run 'pip install -r requirements.txt' ''
                       [msg] of
                  Inl e \<Rightarrow> Some (Uncaught e)
                | Inr m \<Rightarrow> Some (SysExit m))
           | None \<Rightarrow> check_executables env w [''wget'', ''Rscript'', ''tabix'', ''vt'']))"

text \<open>
  The parsed command line (\<^verbatim>\<open>args = p.parse_args()\<close>): \<^verbatim>\<open>-R\<close> and \<^verbatim>\<open>-A\<close> are
  required, so they have a value once parsing has returned; the other three are
  \<^verbatim>\<open>None\<close> when not given. \<open>arg_value\<close> reads an optional value where the script
  has tested it to be true.
\<close>

record args =
  reference_genome :: string
  assembly :: string
  exac_sites_vcf :: "string option"
  clinvar_xml :: "string option"
  clinvar_variant_summary_table :: "string option"

fun arg_value :: "string option \<Rightarrow> string" where
  "arg_value None = []"
| "arg_value (Some s) = s"

text \<open>
  \<^verbatim>\<open>p.error(fmt % value)\<close>: the message is formatted first, and an exception of the
  formatting ends the process before \<^verbatim>\<open>p.error\<close> is called.
\<close>

definition p_error :: "string \<Rightarrow> string list \<Rightarrow> exit" where
  "p_error fmt vals =
     (case py_format fmt vals of
        Inl e \<Rightarrow> Uncaught e
      | Inr msg \<Rightarrow> ParserExit msg)"

text \<open>Lines 34 to 42: the reference genome, and the ExAC sites vcf with its index.\<close>

definition validate_inputs :: "args \<Rightarrow> world \<Rightarrow> exit option" where
  "validate_inputs a w =
     (if \<not> isfile w (reference_genome a) then
        Some (p_error ''genome reference: file not found: %s'' [reference_genome a])
      else if truthy (exac_sites_vcf a) then
        (if \<not> isfile w (arg_value (exac_sites_vcf a)) then
           Some (p_error ''ExAC sites vcf: file not found: %s'' [arg_value (exac_sites_vcf a)])
         else if \<not> isfile w (arg_value (exac_sites_vcf a) @ ''.tbi'') then
           Some (p_error ''ExAC sites vcf: tabix index not found: %{s}.tbi''
                   [arg_value (exac_sites_vcf a)])
         else None)
      else None)"

text \<open>
  Lines 71 to 80 and 82 to 91: each ClinVar input is the file given on the command
  line, which must exist and end in \<^verbatim>\<open>.gz\<close>, or else the fixed local name, after
  a freshness check that may queue its download. The result is the early exit or the
  chosen file name, with the job runner and the world.
\<close>

definition choose_clinvar_xml ::
  "environment \<Rightarrow> args \<Rightarrow> JobRunner \<Rightarrow> world \<Rightarrow> (exit + string) \<times> JobRunner \<times> world" where
  "choose_clinvar_xml env a jr w =
     (if truthy (clinvar_xml a) then
        (if \<not> isfile w (arg_value (clinvar_xml a)) then
           (Inl (p_error ''ClinVar XML specified but not found: %s'' [arg_value (clinvar_xml a)]), jr, w)
         else if \<not> endswith (arg_value (clinvar_xml a)) ''.gz'' then
           (Inl (p_error ''ClinVar XML expected to be gzipped: %s'' [arg_value (clinvar_xml a)]), jr, w)
         else (Inr (arg_value (clinvar_xml a)), jr, w))
      else
        (case download_if_changed env jr ''ClinVarFullRelease_00-latest.xml.gz''
                ''ftp.ncbi.nlm.nih.gov'' ''/pub/clinvar/xml/ClinVarFullRelease_00-latest.xml.gz''
                (print_line ''Checking for new clinvar release'' w) of
           (Some e, jr', w') \<Rightarrow> (Inl (Uncaught e), jr', w')
         | (None, jr', w') \<Rightarrow> (Inr ''ClinVarFullRelease_00-latest.xml.gz'', jr', w')))"

definition choose_variant_summary_table ::
  "environment \<Rightarrow> args \<Rightarrow> JobRunner \<Rightarrow> world \<Rightarrow> (exit + string) \<times> JobRunner \<times> world" where
  "choose_variant_summary_table env a jr w =
     (if truthy (clinvar_variant_summary_table a) then
        (if \<not> isfile w (arg_value (clinvar_variant_summary_table a)) then
           (Inl (p_error ''ClinVar variant summary table specified but not found: %s''
                   [arg_value (clinvar_variant_summary_table a)]), jr, w)
         else if \<not> endswith (arg_value (clinvar_variant_summary_table a)) ''.gz'' then
           (Inl (p_error ''ClinVar variant summary table expected to be gzipped: %s''
                   [arg_value (clinvar_variant_summary_table a)]), jr, w)
         else (Inr (arg_value (clinvar_variant_summary_table a)), jr, w))
      else
        (case download_if_changed env jr ''variant_summary.txt.gz''
                ''ftp.ncbi.nlm.nih.gov'' ''/pub/clinvar/tab_delimited/variant_summary.txt.gz''
                (print_line ''Checking for new clinvar release'' w) of
           (Some e, jr', w') \<Rightarrow> (Inl (Uncaught e), jr', w')
         | (None, jr', w') \<Rightarrow> (Inr ''variant_summary.txt.gz'', jr', w')))"

subsection \<open>The sequential job\<close>

text \<open>
  \<^verbatim>\<open>os.path.basename(p)\<close> is what follows the last slash; \<^verbatim>\<open>s.split(sep)[0]\<close>
  is what precedes the first occurrence of \<open>sep\<close> (all of \<open>s\<close> when there is none).
\<close>

definition basename :: "string \<Rightarrow> string" where
  "basename p = rev (takeWhile (\<lambda>c. c \<noteq> CHR ''/'') (rev p))"

fun before_first :: "string \<Rightarrow> string \<Rightarrow> string" where
  "before_first sep [] = []"
| "before_first sep (c # cs) =
     (if prefix sep (c # cs) then [] else c # before_first sep cs)"

text \<open>
  Lines 95 to 151: the commands of the job, in the order of the \<^verbatim>\<open>job.add\<close>
  calls. \<open>clinvar_xml_file\<close> is the script's variable \<^verbatim>\<open>clinvar_xml\<close> (the record
  field has that name here). The three groups follow the script's layout: the steps
  before the test of \<^verbatim>\<open>args.exac_sites_vcf\<close>, the steps inside it, the steps after.
\<close>

definition main_steps :: "args \<Rightarrow> string \<Rightarrow> string \<Rightarrow> Job \<Rightarrow> Job" where
  \<open>main_steps a clinvar_xml_file variant_summary_table job0 =
     (let job = add job0 (''python -u IN:parse_clinvar_xml.py -x IN:'' @ clinvar_xml_file @
                   '' -o OUT:clinvar_table_raw.tsv -a '' @ assembly a) [] [];
          job = add job ''wget -N https://raw.githubusercontent.com/ericminikel/minimal_representation/master/normalize.py'' [] [];
          job = add job (''python -u normalize.py -R IN:'' @ reference_genome a @
                   '' < IN:clinvar_table_raw.tsv > OUT:clinvar_table_normalized.tsv'') [] [];
          job = add job (''Rscript IN:join_data.R IN:'' @ variant_summary_table)
                   [''clinvar_table_normalized.tsv''] [''clinvar_combined.tsv''];
          job = add job (''(cat IN:clinvar_combined.tsv | head -1 > OUT:clinvar_combined_sorted.tsv ) && '' @
                   ''(cat IN:clinvar_combined.tsv | tail -n +2 | egrep -v "^[XYM]" | sort -k1,1n -k2,2n -k3,3 -k4,4 >> OUT:clinvar_combined_sorted.tsv ) && '' @
                   ''(cat IN:clinvar_combined.tsv | tail -n +2 | egrep "^[XYM]" | sort -k1,1 -k2,2n -k3,3 -k4,4 >> OUT:clinvar_combined_sorted.tsv )'') [] [];
          job = add job ''python -u IN:dedup_clinvar.py < IN:clinvar_combined_sorted.tsv | tee clinvar.tsv | bgzip -c > OUT:clinvar.tsv.gz'' [] [];
          job = add job ''tabix -S 1 -s 1 -b 2 -e 2 IN:clinvar.tsv.gz'' [] [''clinvar.tsv.gz.tbi''];
          job = add job ''cp IN:clinvar.tsv.gz IN:clinvar.tsv.gz.tbi ../'' []
                   [''../clinvar.tsv'', ''../clinvar.tsv.gz'', ''../clinvar.tsv.gz.tbi''];
          job = add job ''python -u IN:clinvar_table_to_vcf.py IN:clinvar.tsv | bgzip -c > OUT:clinvar.vcf.gz'' [] [];
          job = add job ''tabix IN:clinvar.vcf.gz'' [] [''clinvar.vcf.gz.tbi''];
          job = add job ''cp IN:clinvar.vcf.gz IN:clinvar.vcf.gz.tbi ../'' []
                   [''../clinvar.vcf.gz'', ''../clinvar.vcf.gz.tbi'']
      in job)\<close>

definition exac_steps :: "args \<Rightarrow> Job \<Rightarrow> Job" where
  "exac_steps a job0 =
     (let vcf = arg_value (exac_sites_vcf a);
          normalized_vcf = before_first ''.vcf'' (basename vcf) @ ''.normalized.vcf.gz'';
          job = add job0 (''vt decompose -s IN:'' @ vcf @ '' | vt normalize -r IN:'' @
                   reference_genome a @ '' - | bgzip -c > OUT:'' @ normalized_vcf) [] [];
          job = add job (''tabix IN:'' @ normalized_vcf) [] [normalized_vcf @ ''.tbi''];
          job = add job (''python -u IN:add_exac_fields.py -i IN:clinvar.tsv -e IN:'' @ normalized_vcf @
                   '' | bgzip -c > OUT:clinvar_with_exac.tsv.gz'') [] [];
          job = add job ''tabix -S 1 -s 1 -b 2 -e 2 IN:clinvar_with_exac.tsv.gz'' []
                   [''clinvar_with_exac.tsv.gz.tbi''];
          job = add job ''cp IN:clinvar_with_exac.tsv.gz IN:clinvar_with_exac.tsv.gz.tbi ../'' []
                   [''../clinvar_with_exac.tsv.gz'', ''../clinvar_with_exac.tsv.gz.tbi'']
      in job)"

definition final_steps :: "Job \<Rightarrow> Job" where
  \<open>final_steps job0 =
     (let job = add job0 ''gunzip -c IN:clinvar.vcf.gz | head -n 750 > OUT:../clinvar_example_750_rows.vcf'' [] [];
          job = add job ''gunzip -c IN:clinvar.tsv.gz | head -n 750 > OUT:../clinvar_example_750_rows.tsv'' [] [];
          job = add job ''gunzip -c IN:clinvar_with_exac.tsv.gz | head -n 750 > OUT:../clinvar_with_exac_example_750_rows.tsv'' [] [];
          job = add job (''echo Columns: $(gunzip -c clinvar.tsv.gz | head -n 1 | python -c "import sys;print(', '.join(['%s: %s'%(i+1,v) for l in sys.stdin for i,v in enumerate(l.split())]))") > OUT:clinvar_stats.txt &&\<newline>'' @
                   ''echo ================ >> OUT:clinvar_stats.txt &&\<newline>'' @
                   ''echo Total Rows: $(gunzip -c clinvar.tsv.gz | tail -n +2 | wc -l) >> OUT:clinvar_stats.txt &&\<newline>'' @
                   ''for i in 8 9 10 11 12 13 19 20 21 22 23; do \<newline>'' @
                   ''    echo ================ >> OUT:clinvar_stats.txt ;\<newline>'' @
                   ''    gunzip -c IN:clinvar.tsv.gz | head -n 1 | cut -f $i >> OUT:clinvar_stats.txt ;\<newline>'' @
                   ''    gunzip -c IN:clinvar.tsv.gz | tail -n +2 | cut -f $i | tr ';' '\<newline>' | sort | uniq -c | sort -r -n >> OUT:clinvar_stats.txt ;\<newline>'' @
                   ''done\<newline>'')
                   [''clinvar.tsv.gz'', ''master.py''] [];
          job = add job ''cp IN:clinvar_stats.txt OUT:../clinvar_stats.txt'' [] []
      in job)\<close>

definition build_job :: "args \<Rightarrow> string \<Rightarrow> string \<Rightarrow> Job" where
  "build_job a clinvar_xml_file variant_summary_table =
     (let job = [];
          job = main_steps a clinvar_xml_file variant_summary_table job;
          job = (if truthy (exac_sites_vcf a) then exac_steps a job else job);
          job = final_steps job
      in job)"

subsection \<open>The driver\<close>

text \<open>
  The whole script. It either exits early, or reaches \<^verbatim>\<open>jr.run()\<close> at line 93 with
  a parallel queue and then builds the sequential job that line 154 gives to
  \<^verbatim>\<open>jr.run(job)\<close>. These two calls are the only places where commands are executed,
  and they belong to pypez: \<open>Runs queue job\<close> records what the script hands over.
  Nothing between the two calls depends on the first one's result.
\<close>

datatype outcome = Exited exit | Runs "Job list" Job

definition driver :: "environment \<Rightarrow> args \<Rightarrow> world \<Rightarrow> outcome \<times> world" where
  "driver env a w =
     (case check_dependencies env w of
        Some x \<Rightarrow> (Exited x, w)
      | None \<Rightarrow>
          (case validate_inputs a w of
             Some x \<Rightarrow> (Exited x, w)
           | None \<Rightarrow>
               (case choose_clinvar_xml env a JobRunner_new w of
                  (Inl x, jr, w1) \<Rightarrow> (Exited x, w1)
                | (Inr clinvar_xml_file, jr, w1) \<Rightarrow>
                    (case choose_variant_summary_table env a jr w1 of
                       (Inl x, jr', w2) \<Rightarrow> (Exited x, w2)
                     | (Inr variant_summary_table, jr', w2) \<Rightarrow>
                         (Runs (parallel_queue jr')
                            (build_job a clinvar_xml_file variant_summary_table), w2)))))"

subsection \<open>Declared files and the job runner\<close>

text \<open>
  The job runner is pypez, a library the script imports; its code is not part of this
  repository. The definitions of this subsection render what the specification says
  of it.
\<close>

text \<open>
  Modelled from the spec: the marker scan of pypez's command descriptor is missing.
  The specification says that a command string holds "filename references embedded in
  the command string (tokens marked as input/output)", next to the explicit lists.
  Here a token is a maximal run of characters that are not white space, a token that
  starts with \<^verbatim>\<open>IN:\<close> declares the rest of it as an input and one that starts with
  \<^verbatim>\<open>OUT:\<close> as an output.
\<close>

definition is_space :: "char \<Rightarrow> bool" where
  "is_space c = (c = CHR '' '' \<or> c = CHR 0x09 \<or> c = CHR 0x0A \<or> c = CHR 0x0B \<or>
                 c = CHR 0x0C \<or> c = CHR 0x0D)"

fun tokens_from :: "string \<Rightarrow> string \<Rightarrow> string list" where
  "tokens_from acc [] = (if acc = [] then [] else [acc])"
| "tokens_from acc (c # cs) =
     (if is_space c then (if acc = [] then tokens_from [] cs else acc # tokens_from [] cs)
      else tokens_from (acc @ [c]) cs)"

definition tokens :: "string \<Rightarrow> string list" where
  "tokens s = tokens_from [] s"

definition marked :: "string \<Rightarrow> string \<Rightarrow> string list" where
  "marked m s = map (drop (length m)) (filter (prefix m) (tokens s))"

definition declared_inputs :: "CommandDescriptor \<Rightarrow> string list" where
  "declared_inputs c = marked ''IN:'' (command c) @ input_filenames c"

definition declared_outputs :: "CommandDescriptor \<Rightarrow> string list" where
  "declared_outputs c = marked ''OUT:'' (command c) @ output_filenames c"

text \<open>
  Modelled from the spec: the sequential mode of pypez's job runner
  (\<^verbatim>\<open>jr.run(job)\<close>) is missing. The specification, section 4.4: the runner "executes
  descriptors strictly in append order"; it is to "skip execution (log and continue) if
  every declared output exists and is at least as new as every declared input;
  otherwise invoke the external command synchronously, then verify that all declared
  outputs now exist"; a missing output, like a non-zero exit status, "is a fatal error
  for the whole run (abort remaining steps)". An input that does not exist has no
  time to compare with, and the comparison with it counts as failed. What a command
  does to the files is the parameter \<open>exec\<close>, which returns the exit status and the
  files it leaves; \<open>spawned\<close> lists the commands for which a process was started.
\<close>

record run_state =
  fs :: "string \<rightharpoonup> rat"
  spawned :: "string list"

datatype step_result = Skipped | Executed | Failed

definition at_least_as_new :: "(string \<rightharpoonup> rat) \<Rightarrow> string \<Rightarrow> string \<Rightarrow> bool" where
  "at_least_as_new f out inp =
     (case f out of
        None \<Rightarrow> False
      | Some t_out \<Rightarrow> (case f inp of None \<Rightarrow> False | Some t_in \<Rightarrow> t_in \<le> t_out))"

definition up_to_date :: "(string \<rightharpoonup> rat) \<Rightarrow> CommandDescriptor \<Rightarrow> bool" where
  "up_to_date f c =
     list_all (\<lambda>out. f out \<noteq> None \<and> list_all (at_least_as_new f out) (declared_inputs c))
       (declared_outputs c)"

definition run_step ::
  "(string \<Rightarrow> (string \<rightharpoonup> rat) \<Rightarrow> int \<times> (string \<rightharpoonup> rat)) \<Rightarrow> CommandDescriptor \<Rightarrow> run_state
     \<Rightarrow> step_result \<times> run_state" where
  "run_step exec c st =
     (if up_to_date (fs st) c then (Skipped, st)
      else
        (case exec (command c) (fs st) of
           (status, f') \<Rightarrow>
             (if status = 0 \<and> list_all (\<lambda>out. f' out \<noteq> None) (declared_outputs c)
              then Executed else Failed,
              \<lparr>fs = f', spawned = spawned st @ [command c]\<rparr>)))"

fun run_job ::
  "(string \<Rightarrow> (string \<rightharpoonup> rat) \<Rightarrow> int \<times> (string \<rightharpoonup> rat)) \<Rightarrow> Job \<Rightarrow> run_state
     \<Rightarrow> bool \<times> run_state" where
  "run_job exec [] st = (True, st)"
| "run_job exec (c # cs) st =
     (case run_step exec c st of
        (Failed, st') \<Rightarrow> (False, st')
      | (Skipped, st') \<Rightarrow> run_job exec cs st'
      | (Executed, st') \<Rightarrow> run_job exec cs st')"

subsection \<open>Sample environments\<close>

text \<open>
  Concrete inputs for the instances below. In \<open>sample_env refused reply epoch\<close> every
  module imports, assertions are enabled and \<^verbatim>\<open>PATH\<close> is \<^verbatim>\<open>/usr/bin\<close>; the FTP
  server refuses the connection with \<open>refused\<close> (if given), after the whole timeout,
  and answers every command with \<open>reply\<close>, each operation taking a second; the date of
  that reply converts to \<open>epoch\<close>. \<open>installed\<close> are the four tools as files of
  \<^verbatim>\<open>/usr/bin\<close>; \<open>butlast installed\<close> leaves out the last of them, \<^verbatim>\<open>vt\<close>.
\<close>

definition sample_env :: "py_exc option \<Rightarrow> string \<Rightarrow> py_exc + int \<Rightarrow> environment" where
  "sample_env refused reply epoch =
     \<lparr>import_module = (\<lambda>m. None),
      optimize = False,
      path_dirs = [''/usr/bin''],
      ftp_connect = (\<lambda>h t. refused),
      ftp_login = (\<lambda>h. None),
      ftp_sendcmd = (\<lambda>h c. Inr reply),
      ftp_seconds =
        (\<lambda>ev. case ev of
               FtpConnect h t \<Rightarrow> (if refused = None then 1 else enat t)
             | FtpLogin h \<Rightarrow> 1
             | FtpSendcmd h c \<Rightarrow> 1),
      strptime_epoch =
        (\<lambda>s. if s = drop 4 reply then epoch
             else Inl (ValueError ''time data does not match format'')),
      fromtimestamp_str = (\<lambda>t. Inr ''1970-01-01 00:00:00'')\<rparr>"

definition sample_world :: "(string \<times> rat) list \<Rightarrow> world" where
  "sample_world fl = \<lparr>files = map_of fl, stdout = [], net = [], elapsed = 0\<rparr>"

definition installed :: "(string \<times> rat) list" where
  "installed = [(''/usr/bin/wget'', 1300000000), (''/usr/bin/Rscript'', 1300000000),
                (''/usr/bin/tabix'', 1300000000), (''/usr/bin/vt'', 1300000000)]"

definition sample_args :: "string option \<Rightarrow> string option \<Rightarrow> string option \<Rightarrow> args" where
  "sample_args e x s =
     \<lparr>reference_genome = ''hg19.fa'', assembly = ''GRCh37'', exac_sites_vcf = e,
      clinvar_xml = x, clinvar_variant_summary_table = s\<rparr>"

text \<open>
  A sample command for the job runner, and a sample effect of running it: the copy
  appears, dated 30.
\<close>

definition sample_exec :: "string \<Rightarrow> (string \<rightharpoonup> rat) \<Rightarrow> int \<times> (string \<rightharpoonup> rat)" where
  "sample_exec c f = (0, f(''clinvar_stats_copy.txt'' \<mapsto> 30))"

definition sample_step :: CommandDescriptor where
  "sample_step = \<lparr>command = ''cp IN:clinvar_stats.txt OUT:clinvar_stats_copy.txt'',
                   input_filenames = [], output_filenames = []\<rparr>"

section \<open>Properties of the freshness check\<close>

lemma py_format_retrieving:
  "py_format ''Retrieving last-changed time for %s'' [a] =
     Inr (''Retrieving last-changed time for '' @ a)"
  by simp

lemma py_format_error_line:
  "py_format ''ERROR: retrieving last-changed time for %s: %s'' [a, b] =
     Inr (''ERROR: retrieving last-changed time for '' @ a @ '': '' @ b)"
  by simp

lemma py_format_ftp_address:
  "py_format ''ftp://%s/%s'' [a, b] = Inr (''ftp://'' @ a @ ''/'' @ b)"
  by simp

lemma py_format_wget:
  "py_format ''wget %s -O OUT:%s'' [a, b] = Inr (''wget '' @ a @ '' -O OUT:'' @ b)"
  by simp

lemma py_format_up_to_date:
  "py_format ''Local copy of %s is up to date. The remote version hasn't changed since %s'' [a, b] =
     Inr (''Local copy of '' @ a @
          '' is up to date. The remote version hasn't changed since '' @ b)"
  by simp

lemma fst_ftp_query: "fst (ftp_query env h p w) = ftp_result env h p"
  by (simp add: ftp_result_def ftp_query_def FTP_def FTP_login_def FTP_sendcmd_def
        split: option.splits sum.splits)

lemma files_ftp_query: "files (snd (ftp_query env h p w)) = files w"
  by (simp add: ftp_query_def FTP_def FTP_login_def FTP_sendcmd_def net_op_def
        split: option.splits sum.splits)

lemma net_ftp_query:
  "\<exists>more. net (snd (ftp_query env h p w)) = net w @ FtpConnect h 3 # more \<and>
          list_all (\<lambda>ev. \<not> is_connect ev) more"
  by (simp add: ftp_query_def FTP_def FTP_login_def FTP_sendcmd_def net_op_def
        split: option.splits sum.splits)

lemma elapsed_ftp_query_refused:
  "ftp_connect env h 3 \<noteq> None \<Longrightarrow>
     elapsed (snd (ftp_query env h p w)) = elapsed w + ftp_seconds env (FtpConnect h 3)"
  by (auto simp: ftp_query_def FTP_def net_op_def)

lemma get_remote_file_changed_time_eq:
  "get_remote_file_changed_time env h p w =
     (case ftp_query env h p
             (print_line (''Retrieving last-changed time for '' @ os_path_join h p) w) of
        (Inr t, w') \<Rightarrow> (Inr t, w')
      | (Inl e, w') \<Rightarrow>
          if is_Exception e then
            (Inr 0, print_line (''ERROR: retrieving last-changed time for '' @
                                 os_path_join h p @ '': '' @ exc_str e) w')
          else (Inl e, w'))"
  unfolding get_remote_file_changed_time_def py_format_retrieving py_format_error_line
  by (simp split: prod.splits sum.splits)

lemma fst_get_remote:
  "fst (get_remote_file_changed_time env h p w) =
     (case ftp_result env h p of
        Inr t \<Rightarrow> Inr t
      | Inl e \<Rightarrow> if is_Exception e then Inr 0 else Inl e)"
  using fst_ftp_query [of env h p "print_line (''Retrieving last-changed time for '' @ os_path_join h p) w"]
  by (auto simp: get_remote_file_changed_time_eq split: prod.splits sum.splits)

lemma files_get_remote:
  "files (snd (get_remote_file_changed_time env h p w)) = files w"
  using files_ftp_query [of env h p "print_line (''Retrieving last-changed time for '' @ os_path_join h p) w"]
  by (auto simp: get_remote_file_changed_time_eq print_line_def split: prod.splits sum.splits)

lemma net_get_remote:
  "net (snd (get_remote_file_changed_time env h p w)) =
     net (snd (ftp_query env h p
                 (print_line (''Retrieving last-changed time for '' @ os_path_join h p) w)))"
  by (auto simp: get_remote_file_changed_time_eq print_line_def split: prod.splits sum.splits)

lemma elapsed_get_remote:
  "elapsed (snd (get_remote_file_changed_time env h p w)) =
     elapsed (snd (ftp_query env h p
                 (print_line (''Retrieving last-changed time for '' @ os_path_join h p) w)))"
  by (auto simp: get_remote_file_changed_time_eq print_line_def split: prod.splits sum.splits)

lemma local_changed_time_get_remote:
  "local_changed_time (snd (get_remote_file_changed_time env h p w)) lp = local_changed_time w lp"
  by (simp add: local_changed_time_def files_get_remote)

lemma download_if_changed_eq:
  "download_if_changed env jr lp h p w =
     (case get_remote_file_changed_time env h p w of
        (Inl e, w1) \<Rightarrow> (Some e, jr, w1)
      | (Inr t, w1) \<Rightarrow>
          if of_int t > local_changed_time w lp then
            (None, add_parallel jr (Job_of (''wget ftp://'' @ h @ ''/'' @ p @ '' -O OUT:'' @ lp)), w1)
          else
            (case fromtimestamp_str env t of
               Inl e \<Rightarrow> (Some e, jr, w1)
             | Inr since \<Rightarrow>
                 (None, jr,
                  print_line (''Local copy of ftp://'' @ h @ ''/'' @ p @
                    '' is up to date. The remote version hasn't changed since '' @ since) w1)))"
  using local_changed_time_get_remote [of env h p w lp]
  unfolding download_if_changed_def py_format_ftp_address py_format_wget py_format_up_to_date
  by (auto split: prod.splits sum.splits)

lemma files_download_if_changed:
  "files (snd (snd (download_if_changed env jr lp h p w))) = files w"
  using files_get_remote [of env h p w]
  by (auto simp: download_if_changed_eq print_line_def split: prod.splits sum.splits)


text \<open>
  C7: the freshness decision changes no local file. Neither
  \<open>get_remote_file_changed_time\<close> nor \<open>download_if_changed\<close> (which only queues a
  command for a later run) creates, modifies or deletes a file: the files of the world
  they return are the files they were given. Their other effects are what the
  \<open>world\<close> record has besides: lines printed and FTP operations.
\<close>

theorem freshness_check_no_local_mutation:
  "files (snd (get_remote_file_changed_time env ftp_host ftp_path w)) = files w \<and>
   files (snd (snd (download_if_changed env job_runner local_path ftp_host ftp_path w))) = files w"
  by (simp add: files_get_remote files_download_if_changed)

text \<open>
  C9: every freshness query opens its FTP connection with a timeout of 3 seconds, so an
  unreachable server cannot make it wait without end. One call of
  \<open>get_remote_file_changed_time\<close> begins its network operations with
  \<^verbatim>\<open>ftplib.FTP(ftp_host, timeout=3)\<close> and opens no other connection. If no
  connection to the host can be made, and an attempt with a timeout of \<open>t\<close> seconds
  blocks for at most \<open>t\<close> seconds (what a socket timeout means), the call is back
  after at most 3 seconds.
\<close>

theorem remote_query_timeout:
  "(\<exists>more. net (snd (get_remote_file_changed_time env ftp_host ftp_path w)) =
             net w @ FtpConnect ftp_host 3 # more \<and>
           list_all (\<lambda>ev. \<not> is_connect ev) more) \<and>
   ((\<forall>t. ftp_connect env ftp_host t \<noteq> None) \<and>
    (\<forall>t. ftp_seconds env (FtpConnect ftp_host t) \<le> enat t) \<longrightarrow>
      elapsed (snd (get_remote_file_changed_time env ftp_host ftp_path w)) \<le> elapsed w + 3)"
proof -
  let ?w = "print_line (''Retrieving last-changed time for '' @ os_path_join ftp_host ftp_path) w"
  have n: "net ?w = net w" and e: "elapsed ?w = elapsed w"
    by (simp_all add: print_line_def)
  have 1: "\<exists>more. net (snd (get_remote_file_changed_time env ftp_host ftp_path w)) =
             net w @ FtpConnect ftp_host 3 # more \<and> list_all (\<lambda>ev. \<not> is_connect ev) more"
    using net_ftp_query [of env ftp_host ftp_path ?w] unfolding net_get_remote n .
  have 2: "elapsed (snd (get_remote_file_changed_time env ftp_host ftp_path w)) \<le> elapsed w + 3"
    if u: "\<forall>t. ftp_connect env ftp_host t \<noteq> None"
      and c: "\<forall>t. ftp_seconds env (FtpConnect ftp_host t) \<le> enat t"
  proof -
    from u have "ftp_connect env ftp_host 3 \<noteq> None" by blast
    then have "elapsed (snd (get_remote_file_changed_time env ftp_host ftp_path w)) =
        elapsed w + ftp_seconds env (FtpConnect ftp_host 3)"
      unfolding elapsed_get_remote by (simp add: elapsed_ftp_query_refused print_line_def)
    moreover from c have "ftp_seconds env (FtpConnect ftp_host 3) \<le> enat 3" by blast
    ultimately show ?thesis
      by (simp add: numeral_eq_enat)
  qed
  from 1 2 show ?thesis by blast
qed

theorem remote_query_timeout_witness:
  "(\<forall>t. ftp_connect (sample_env (Some (IOError ''timed out'')) [] (Inr 0)) ''ftp.ncbi.nlm.nih.gov'' t \<noteq> None) \<and>
   (\<forall>t. ftp_seconds (sample_env (Some (IOError ''timed out'')) [] (Inr 0))
          (FtpConnect ''ftp.ncbi.nlm.nih.gov'' t) \<le> enat t) \<and>
   get_remote_file_changed_time (sample_env (Some (IOError ''timed out'')) [] (Inr 0))
     ''ftp.ncbi.nlm.nih.gov'' ''/pub/clinvar/xml/ClinVarFullRelease_00-latest.xml.gz'' (sample_world []) =
     (Inr 0,
      \<lparr>files = Map.empty,
       stdout = [''Retrieving last-changed time for /pub/clinvar/xml/ClinVarFullRelease_00-latest.xml.gz'',
                 ''ERROR: retrieving last-changed time for /pub/clinvar/xml/ClinVarFullRelease_00-latest.xml.gz: timed out''],
       net = [FtpConnect ''ftp.ncbi.nlm.nih.gov'' 3], elapsed = 3\<rparr>) \<and>
   elapsed (snd (get_remote_file_changed_time (sample_env (Some (IOError ''timed out'')) [] (Inr 0))
     ''ftp.ncbi.nlm.nih.gov'' ''/pub/clinvar/xml/ClinVarFullRelease_00-latest.xml.gz'' (sample_world [])))
     \<le> elapsed (sample_world []) + 3"
proof -
  let ?env = "sample_env (Some (IOError ''timed out'')) [] (Inr 0)"
  have u: "\<forall>t. ftp_connect ?env ''ftp.ncbi.nlm.nih.gov'' t \<noteq> None"
    and c: "\<forall>t. ftp_seconds ?env (FtpConnect ''ftp.ncbi.nlm.nih.gov'' t) \<le> enat t"
    by (simp_all add: sample_env_def)
  have b: "elapsed (snd (get_remote_file_changed_time ?env ''ftp.ncbi.nlm.nih.gov''
      ''/pub/clinvar/xml/ClinVarFullRelease_00-latest.xml.gz'' (sample_world []))) \<le> elapsed (sample_world []) + 3"
    using remote_query_timeout [of ?env "''ftp.ncbi.nlm.nih.gov''"
        "''/pub/clinvar/xml/ClinVarFullRelease_00-latest.xml.gz''" "sample_world []"] u c
    by (elim conjE impE) (intro conjI)
  have v: "get_remote_file_changed_time ?env
     ''ftp.ncbi.nlm.nih.gov'' ''/pub/clinvar/xml/ClinVarFullRelease_00-latest.xml.gz'' (sample_world []) =
     (Inr 0,
      \<lparr>files = Map.empty,
       stdout = [''Retrieving last-changed time for /pub/clinvar/xml/ClinVarFullRelease_00-latest.xml.gz'',
                 ''ERROR: retrieving last-changed time for /pub/clinvar/xml/ClinVarFullRelease_00-latest.xml.gz: timed out''],
       net = [FtpConnect ''ftp.ncbi.nlm.nih.gov'' 3], elapsed = 3\<rparr>)"
    by (simp add: get_remote_file_changed_time_eq ftp_query_def FTP_def net_op_def print_line_def
          os_path_join_def sample_env_def sample_world_def numeral_eq_enat zero_enat_def)
  from u c v b show ?thesis by (intro conjI)
qed

text \<open>
  C1, as amended: whenever \<open>get_remote_file_changed_time\<close> returns a timestamp,
  \<open>download_if_changed\<close> queues the download (\<^verbatim>\<open>wget\<close> of the remote address into
  the local path) exactly when that timestamp is strictly greater than the local
  file's effective timestamp, its mtime if it exists and 0 if not; in particular the
  download is queued when the file is absent and the timestamp is positive, and it is
  not queued when the timestamp is older than an existing file.
\<close>

theorem download_enqueued_iff_remote_newer:
  assumes "fst (get_remote_file_changed_time env ftp_host ftp_path w) = Inr remote"
  shows "fst (snd (download_if_changed env jr local_path ftp_host ftp_path w)) =
           (if of_int remote > local_changed_time w local_path
            then add_parallel jr (Job_of (''wget ftp://'' @ ftp_host @ ''/'' @ ftp_path @ '' -O OUT:'' @ local_path))
            else jr) \<and>
         (files w local_path = None \<and> 0 < remote \<longrightarrow>
            parallel_queue (fst (snd (download_if_changed env jr local_path ftp_host ftp_path w))) =
              parallel_queue jr @ [Job_of (''wget ftp://'' @ ftp_host @ ''/'' @ ftp_path @ '' -O OUT:'' @ local_path)]) \<and>
         (\<forall>m. files w local_path = Some m \<and> of_int remote < m \<longrightarrow>
            fst (snd (download_if_changed env jr local_path ftp_host ftp_path w)) = jr)"
proof -
  obtain w1 where g: "get_remote_file_changed_time env ftp_host ftp_path w = (Inr remote, w1)"
    using assms by (cases "get_remote_file_changed_time env ftp_host ftp_path w") simp
  have main: "fst (snd (download_if_changed env jr local_path ftp_host ftp_path w)) =
           (if of_int remote > local_changed_time w local_path
            then add_parallel jr (Job_of (''wget ftp://'' @ ftp_host @ ''/'' @ ftp_path @ '' -O OUT:'' @ local_path))
            else jr)"
    by (simp add: download_if_changed_eq g split: sum.splits)
  show ?thesis
    unfolding main by (auto simp: local_changed_time_def add_parallel_def)
qed

theorem download_enqueued_iff_remote_newer_witness:
  "fst (get_remote_file_changed_time (sample_env None ''213 20170101000000'' (Inr 1483228800))
          ''ftp.ncbi.nlm.nih.gov'' ''/pub/clinvar/tab_delimited/variant_summary.txt.gz''
          (sample_world [])) = Inr 1483228800 \<and>
   files (sample_world []) ''variant_summary.txt.gz'' = None \<and>
   parallel_queue (fst (snd (download_if_changed (sample_env None ''213 20170101000000'' (Inr 1483228800))
          JobRunner_new ''variant_summary.txt.gz''
          ''ftp.ncbi.nlm.nih.gov'' ''/pub/clinvar/tab_delimited/variant_summary.txt.gz''
          (sample_world [])))) =
     [Job_of ''wget ftp://ftp.ncbi.nlm.nih.gov//pub/clinvar/tab_delimited/variant_summary.txt.gz -O OUT:variant_summary.txt.gz'']"
proof -
  have h: "fst (get_remote_file_changed_time (sample_env None ''213 20170101000000'' (Inr 1483228800))
          ''ftp.ncbi.nlm.nih.gov'' ''/pub/clinvar/tab_delimited/variant_summary.txt.gz''
          (sample_world [])) = Inr 1483228800"
    by (simp add: fst_get_remote ftp_result_def ftp_query_def FTP_def FTP_login_def FTP_sendcmd_def
          sample_env_def)
  have f: "files (sample_world []) ''variant_summary.txt.gz'' = None"
    by (simp add: sample_world_def)
  have "files (sample_world []) ''variant_summary.txt.gz'' = None \<and> (0::int) < 1483228800 \<longrightarrow>
    parallel_queue (fst (snd (download_if_changed (sample_env None ''213 20170101000000'' (Inr 1483228800))
          JobRunner_new ''variant_summary.txt.gz''
          ''ftp.ncbi.nlm.nih.gov'' ''/pub/clinvar/tab_delimited/variant_summary.txt.gz''
          (sample_world [])))) =
     parallel_queue JobRunner_new @
     [Job_of (''wget ftp://'' @ ''ftp.ncbi.nlm.nih.gov'' @ ''/'' @
        ''/pub/clinvar/tab_delimited/variant_summary.txt.gz'' @ '' -O OUT:'' @ ''variant_summary.txt.gz'')]"
    using download_enqueued_iff_remote_newer [OF h, where jr = JobRunner_new
        and local_path = "''variant_summary.txt.gz''"]
    by blast
  with h f show ?thesis
    by (simp add: JobRunner_new_def)
qed

text \<open>
  The claim as first stated also promised a download whenever the local file is absent
  and the remote query succeeds. A server that dates the file at the epoch
  (\<^verbatim>\<open>213 19700101000000\<close>, read in UTC) answers successfully with the timestamp 0,
  which is not greater than the absent file's 0: nothing is queued.
\<close>

theorem absent_file_epoch_remote_counterexample:
  "ftp_result (sample_env None ''213 19700101000000'' (Inr 0))
      ''ftp.ncbi.nlm.nih.gov'' ''/pub/clinvar/tab_delimited/variant_summary.txt.gz'' = Inr 0 \<and>
   files (sample_world []) ''variant_summary.txt.gz'' = None \<and>
   download_if_changed (sample_env None ''213 19700101000000'' (Inr 0))
          JobRunner_new ''variant_summary.txt.gz''
          ''ftp.ncbi.nlm.nih.gov'' ''/pub/clinvar/tab_delimited/variant_summary.txt.gz''
          (sample_world []) =
     (None, \<lparr>parallel_queue = []\<rparr>,
      \<lparr>files = Map.empty,
       stdout = [''Retrieving last-changed time for /pub/clinvar/tab_delimited/variant_summary.txt.gz'',
                 ''Local copy of ftp://ftp.ncbi.nlm.nih.gov//pub/clinvar/tab_delimited/variant_summary.txt.gz is up to date. The remote version hasn't changed since 1970-01-01 00:00:00''],
       net = [FtpConnect ''ftp.ncbi.nlm.nih.gov'' 3, FtpLogin ''ftp.ncbi.nlm.nih.gov'',
              FtpSendcmd ''ftp.ncbi.nlm.nih.gov'' ''MDTM /pub/clinvar/tab_delimited/variant_summary.txt.gz''],
       elapsed = 3\<rparr>)"
  by (simp add: download_if_changed_eq get_remote_file_changed_time_eq ftp_result_def ftp_query_def
        FTP_def FTP_login_def FTP_sendcmd_def net_op_def
        sample_env_def sample_world_def JobRunner_new_def local_changed_time_def print_line_def
        os_path_join_def numeral_eq_enat one_enat_def zero_enat_def)

text \<open>
  C2, as amended: when the remote query fails with an exception that derives from
  \<^verbatim>\<open>Exception\<close> (connection error, timeout, protocol error, unparsable reply),
  \<open>get_remote_file_changed_time\<close> returns 0 and raises nothing; and then
  \<open>download_if_changed\<close> leaves the job runner as it was, provided the local file is
  absent or its modification time is not negative.
\<close>

theorem remote_failure_returns_sentinel:
  assumes "ftp_result env ftp_host ftp_path = Inl e" and "is_Exception e"
  shows "fst (get_remote_file_changed_time env ftp_host ftp_path w) = Inr 0 \<and>
         (0 \<le> local_changed_time w local_path \<longrightarrow>
            fst (snd (download_if_changed env jr local_path ftp_host ftp_path w)) = jr)"
proof -
  have "fst (get_remote_file_changed_time env ftp_host ftp_path w) = Inr 0"
    using assms by (simp add: fst_get_remote)
  then obtain w1 where "get_remote_file_changed_time env ftp_host ftp_path w = (Inr 0, w1)"
    by (cases "get_remote_file_changed_time env ftp_host ftp_path w") simp
  then show ?thesis
    by (simp add: download_if_changed_eq split: sum.splits)
qed

theorem remote_failure_returns_sentinel_witness:
  "ftp_result (sample_env (Some (IOError ''timed out'')) [] (Inr 0))
      ''ftp.ncbi.nlm.nih.gov'' ''/pub/clinvar/xml/ClinVarFullRelease_00-latest.xml.gz'' = Inl (IOError ''timed out'') \<and>
   is_Exception (IOError ''timed out'') \<and>
   0 \<le> local_changed_time (sample_world [(''ClinVarFullRelease_00-latest.xml.gz'', 1483228800)])
          ''ClinVarFullRelease_00-latest.xml.gz'' \<and>
   fst (get_remote_file_changed_time (sample_env (Some (IOError ''timed out'')) [] (Inr 0))
      ''ftp.ncbi.nlm.nih.gov'' ''/pub/clinvar/xml/ClinVarFullRelease_00-latest.xml.gz''
      (sample_world [(''ClinVarFullRelease_00-latest.xml.gz'', 1483228800)])) = Inr 0 \<and>
   fst (snd (download_if_changed (sample_env (Some (IOError ''timed out'')) [] (Inr 0)) JobRunner_new
      ''ClinVarFullRelease_00-latest.xml.gz''
      ''ftp.ncbi.nlm.nih.gov'' ''/pub/clinvar/xml/ClinVarFullRelease_00-latest.xml.gz''
      (sample_world [(''ClinVarFullRelease_00-latest.xml.gz'', 1483228800)]))) = JobRunner_new"
proof -
  have h: "ftp_result (sample_env (Some (IOError ''timed out'')) [] (Inr 0))
      ''ftp.ncbi.nlm.nih.gov'' ''/pub/clinvar/xml/ClinVarFullRelease_00-latest.xml.gz'' = Inl (IOError ''timed out'')"
    by (simp add: ftp_result_def ftp_query_def FTP_def sample_env_def)
  have l: "0 \<le> local_changed_time (sample_world [(''ClinVarFullRelease_00-latest.xml.gz'', 1483228800)])
          ''ClinVarFullRelease_00-latest.xml.gz''"
    by (simp add: local_changed_time_def sample_world_def)
  show ?thesis
    using h l remote_failure_returns_sentinel [OF h, where
        w = "sample_world [(''ClinVarFullRelease_00-latest.xml.gz'', 1483228800)]"
        and local_path = "''ClinVarFullRelease_00-latest.xml.gz''" and jr = JobRunner_new]
    by simp
qed

text \<open>
  Without that proviso the consequence fails: for a local file dated before 1970
  (mtime \<open>-1\<close>) the sentinel 0 of a failed query is the greater timestamp, and the
  download is queued.
\<close>

theorem remote_failure_old_file_counterexample:
  "ftp_result (sample_env (Some (IOError ''timed out'')) [] (Inr 0))
      ''ftp.ncbi.nlm.nih.gov'' ''/pub/clinvar/xml/ClinVarFullRelease_00-latest.xml.gz'' = Inl (IOError ''timed out'') \<and>
   fst (get_remote_file_changed_time (sample_env (Some (IOError ''timed out'')) [] (Inr 0))
      ''ftp.ncbi.nlm.nih.gov'' ''/pub/clinvar/xml/ClinVarFullRelease_00-latest.xml.gz''
      (sample_world [(''ClinVarFullRelease_00-latest.xml.gz'', - 1)])) = Inr 0 \<and>
   parallel_queue (fst (snd (download_if_changed (sample_env (Some (IOError ''timed out'')) [] (Inr 0)) JobRunner_new
      ''ClinVarFullRelease_00-latest.xml.gz''
      ''ftp.ncbi.nlm.nih.gov'' ''/pub/clinvar/xml/ClinVarFullRelease_00-latest.xml.gz''
      (sample_world [(''ClinVarFullRelease_00-latest.xml.gz'', - 1)])))) =
     [Job_of ''wget ftp://ftp.ncbi.nlm.nih.gov//pub/clinvar/xml/ClinVarFullRelease_00-latest.xml.gz -O OUT:ClinVarFullRelease_00-latest.xml.gz'']"
  by (simp add: download_if_changed_eq get_remote_file_changed_time_eq ftp_result_def
        ftp_query_def FTP_def net_op_def print_line_def
        sample_env_def sample_world_def JobRunner_new_def local_changed_time_def add_parallel_def)

section \<open>Properties of the start-up and of the validation\<close>

lemma py_format_command_not_found:
  "py_format ''Command %s not found, see README'' [x] =
     Inr (''Command '' @ x @ '' not found, see README'')"
  by simp

lemma py_format_module_not_installed:
  "py_format ''ERROR: Python module not installed. %s. Please run 'pip install -r requirements.txt' '' [m] =
     Inr (''ERROR: Python module not installed. '' @ m @
          ''. Please run 'pip install -r requirements.txt' '')"
  by simp

lemma first_import_error_None:
  "first_import_error env ms = None \<longleftrightarrow> list_all (\<lambda>m. import_module env m = None) ms"
  by (induction ms) (auto split: option.splits)

lemma first_import_error_Some:
  "first_import_error env ms = Some msg \<Longrightarrow> \<exists>m \<in> set ms. import_module env m = Some msg"
  by (induction ms) (auto split: option.splits)

lemma os_path_join_nonempty: "t \<noteq> [] \<Longrightarrow> os_path_join p t \<noteq> []"
  by (simp add: os_path_join_def)

lemma first_on_path_None:
  "first_on_path w ps t = None \<longleftrightarrow> \<not> list_ex (\<lambda>p. isfile w (os_path_join p t)) ps"
  by (induction ps) simp_all

lemma first_on_path_truthy:
  "t \<noteq> [] \<Longrightarrow> truthy (first_on_path w ps t) \<longleftrightarrow> list_ex (\<lambda>p. isfile w (os_path_join p t)) ps"
  by (induction ps) (simp_all add: os_path_join_nonempty)

lemma find_executable_truthy:
  "t \<noteq> [] \<Longrightarrow> truthy (find_executable env w t) \<longleftrightarrow> isfile w t \<or> on_path env w t"
  by (simp add: find_executable_def on_path_def first_on_path_truthy)

lemma check_executables_None:
  "check_executables env w xs = None \<longleftrightarrow>
     optimize env \<or> list_all (\<lambda>x. truthy (find_executable env w x)) xs"
  by (induction xs) (auto simp: py_format_command_not_found)

lemma check_executables_Some:
  "check_executables env w xs = Some x \<Longrightarrow>
     \<not> optimize env \<and>
     (\<exists>t \<in> set xs. \<not> truthy (find_executable env w t) \<and>
        x = Uncaught (AssertionError (''Command '' @ t @ '' not found, see README'')))"
  by (induction xs) (auto simp: py_format_command_not_found split: if_splits)

lemma tools_found_iff:
  "list_all (\<lambda>x. truthy (find_executable env w x)) [''wget'', ''Rscript'', ''tabix'', ''vt''] \<longleftrightarrow>
     list_all (\<lambda>t. isfile w t \<or> on_path env w t) [''wget'', ''Rscript'', ''tabix'', ''vt'']"
  by (simp add: find_executable_truthy)

lemma check_dependencies_None:
  "check_dependencies env w = None \<longleftrightarrow>
     list_all (\<lambda>m. import_module env m = None) [''configargparse'', ''pypez'', ''pysam'', ''pandas''] \<and>
     (optimize env \<or>
      list_all (\<lambda>t. isfile w t \<or> on_path env w t) [''wget'', ''Rscript'', ''tabix'', ''vt''])"
proof (cases "import_module env ''configargparse''")
  case (Some msg)
  then show ?thesis by (simp add: check_dependencies_def)
next
  case None
  show ?thesis
  proof (cases "first_import_error env [''pypez'', ''pysam'', ''pandas'']")
    case (Some msg)
    have "\<not> list_all (\<lambda>m. import_module env m = None) [''pypez'', ''pysam'', ''pandas'']"
      using Some first_import_error_None [of env "[''pypez'', ''pysam'', ''pandas'']"] by simp
    then show ?thesis
      using None Some unfolding check_dependencies_def py_format_module_not_installed by auto
  next
    case n: None
    have "list_all (\<lambda>m. import_module env m = None) [''pypez'', ''pysam'', ''pandas'']"
      using n first_import_error_None [of env "[''pypez'', ''pysam'', ''pandas'']"] by simp
    then show ?thesis
      using None n check_executables_None [of env w "[''wget'', ''Rscript'', ''tabix'', ''vt'']"]
      unfolding check_dependencies_def tools_found_iff [symmetric] by simp
  qed
qed

lemma check_dependencies_Some:
  assumes "check_dependencies env w = Some x"
  shows "(\<exists>msg. import_module env ''configargparse'' = Some msg \<and> x = Uncaught (ImportError msg)) \<or>
         (\<exists>m msg. m \<in> set [''pypez'', ''pysam'', ''pandas''] \<and> import_module env m = Some msg \<and>
            x = SysExit (''ERROR: Python module not installed. '' @ msg @
                         ''. Please run 'pip install -r requirements.txt' '')) \<or>
         (\<exists>t. t \<in> set [''wget'', ''Rscript'', ''tabix'', ''vt''] \<and> \<not> isfile w t \<and> \<not> on_path env w t \<and>
            x = Uncaught (AssertionError (''Command '' @ t @ '' not found, see README'')))"
proof (cases "import_module env ''configargparse''")
  case (Some msg)
  then show ?thesis using assms by (simp add: check_dependencies_def)
next
  case None
  show ?thesis
  proof (cases "first_import_error env [''pypez'', ''pysam'', ''pandas'']")
    case (Some msg)
    then obtain m where "m \<in> set [''pypez'', ''pysam'', ''pandas'']" "import_module env m = Some msg"
      using first_import_error_Some by blast
    moreover have "x = SysExit (''ERROR: Python module not installed. '' @ msg @
                         ''. Please run 'pip install -r requirements.txt' '')"
      using assms None Some unfolding check_dependencies_def py_format_module_not_installed by simp
    ultimately show ?thesis by blast
  next
    case n: None
    have "check_executables env w [''wget'', ''Rscript'', ''tabix'', ''vt''] = Some x"
      using assms None n unfolding check_dependencies_def by simp
    from check_executables_Some [OF this]
    obtain t where t: "t \<in> set [''wget'', ''Rscript'', ''tabix'', ''vt'']"
      and f: "\<not> truthy (find_executable env w t)"
      and x: "x = Uncaught (AssertionError (''Command '' @ t @ '' not found, see README''))"
      by blast
    from t have "t \<noteq> []" by auto
    with f have "\<not> isfile w t \<and> \<not> on_path env w t"
      by (simp add: find_executable_truthy)
    with t x show ?thesis by blast
  qed
qed

text \<open>
  C4, as amended: when one of the modules configargparse, pypez, pysam and pandas does
  not import, or when assertions are enabled and one of the tools wget, Rscript, tabix
  and vt is a file neither of a directory of \<^verbatim>\<open>PATH\<close> nor, under that name, of the
  working directory, the process ends at once with a non-zero status and a report that
  names what is missing (the ImportError's message, or "Command ... not found"), in the
  world it started in: nothing was printed, no network operation was attempted and no
  job runner was run.
\<close>

theorem missing_dependency_exits:
  assumes "list_ex (\<lambda>m. import_module env m \<noteq> None) [''configargparse'', ''pypez'', ''pysam'', ''pandas''] \<or>
           \<not> optimize env \<and>
           list_ex (\<lambda>t. \<not> isfile w t \<and> \<not> on_path env w t) [''wget'', ''Rscript'', ''tabix'', ''vt'']"
  shows "\<exists>x. driver env a w = (Exited x, w) \<and> 0 < exit_status x \<and>
           ((\<exists>msg. import_module env ''configargparse'' = Some msg \<and> x = Uncaught (ImportError msg)) \<or>
            (\<exists>m msg. m \<in> set [''pypez'', ''pysam'', ''pandas''] \<and> import_module env m = Some msg \<and>
               x = SysExit (''ERROR: Python module not installed. '' @ msg @
                            ''. Please run 'pip install -r requirements.txt' '')) \<or>
            (\<exists>t. t \<in> set [''wget'', ''Rscript'', ''tabix'', ''vt''] \<and> \<not> isfile w t \<and> \<not> on_path env w t \<and>
               x = Uncaught (AssertionError (''Command '' @ t @ '' not found, see README''))))"
proof -
  have "check_dependencies env w \<noteq> None"
    using assms check_dependencies_None [of env w] by (auto simp: list_ex_iff list_all_iff)
  then obtain x where x: "check_dependencies env w = Some x" by blast
  have d: "driver env a w = (Exited x, w)"
    using x by (simp add: driver_def)
  have s: "0 < exit_status x"
    by (cases x) simp_all
  from check_dependencies_Some [OF x] d s show ?thesis by blast
qed

theorem missing_dependency_exits_witness:
  "\<not> optimize (sample_env None [] (Inr 0)) \<and>
   list_ex (\<lambda>t. \<not> isfile (sample_world (butlast installed @ [(''hg19.fa'', 1400000000)])) t \<and>
                \<not> on_path (sample_env None [] (Inr 0))
                    (sample_world (butlast installed @ [(''hg19.fa'', 1400000000)])) t)
     [''wget'', ''Rscript'', ''tabix'', ''vt''] \<and>
   driver (sample_env None [] (Inr 0)) (sample_args None None None)
     (sample_world (butlast installed @ [(''hg19.fa'', 1400000000)])) =
     (Exited (Uncaught (AssertionError ''Command vt not found, see README'')),
      sample_world (butlast installed @ [(''hg19.fa'', 1400000000)]))"
proof -
  let ?env = "sample_env None [] (Inr 0)"
  let ?a = "sample_args None None None"
  let ?w = "sample_world (butlast installed @ [(''hg19.fa'', 1400000000)])"
  have o: "\<not> optimize ?env"
    by (simp add: sample_env_def)
  have h: "list_ex (\<lambda>t. \<not> isfile ?w t \<and> \<not> on_path ?env ?w t) [''wget'', ''Rscript'', ''tabix'', ''vt'']"
    by (simp add: sample_env_def sample_world_def installed_def isfile_def on_path_def os_path_join_def
          suffix_Cons)
  obtain x where x: "driver ?env ?a ?w = (Exited x, ?w)"
    using missing_dependency_exits [OF disjI2 [OF conjI [OF o h]], of ?a]
    by (elim exE conjE) (rule that)
  have "driver ?env ?a ?w =
      (Exited (Uncaught (AssertionError ''Command vt not found, see README'')), ?w)"
    by (simp add: driver_def check_dependencies_def find_executable_def isfile_def os_path_join_def
          suffix_Cons sample_env_def sample_world_def installed_def)
  with o h x show ?thesis by simp
qed

text \<open>
  The claim as first stated speaks of every execution environment in which a tool is
  not findable on the execution path. Two environments in which \<^verbatim>\<open>vt\<close> is in no
  directory of \<^verbatim>\<open>PATH\<close> and the script still reaches the job runner: one whose
  interpreter optimizes, where the \<^verbatim>\<open>assert\<close> of line 21 is compiled away, and
  one with a file named \<^verbatim>\<open>vt\<close> in the working directory, which
  \<^verbatim>\<open>find_executable\<close> accepts.
\<close>

theorem missing_tool_not_reported_counterexample:
  "optimize ((sample_env None [] (Inr 0))\<lparr>optimize := True\<rparr>) \<and>
   \<not> isfile (sample_world (butlast installed @
        [(''hg19.fa'', 1400000000), (''ClinVarFullRelease_2017-01.xml.gz'', 1400000000),
         (''variant_summary.txt.gz'', 1400000000)])) ''vt'' \<and>
   \<not> on_path ((sample_env None [] (Inr 0))\<lparr>optimize := True\<rparr>)
       (sample_world (butlast installed @
        [(''hg19.fa'', 1400000000), (''ClinVarFullRelease_2017-01.xml.gz'', 1400000000),
         (''variant_summary.txt.gz'', 1400000000)])) ''vt'' \<and>
   fst (driver ((sample_env None [] (Inr 0))\<lparr>optimize := True\<rparr>)
     (sample_args None (Some ''ClinVarFullRelease_2017-01.xml.gz'') (Some ''variant_summary.txt.gz''))
     (sample_world (butlast installed @
        [(''hg19.fa'', 1400000000), (''ClinVarFullRelease_2017-01.xml.gz'', 1400000000),
         (''variant_summary.txt.gz'', 1400000000)]))) =
     Runs [] (build_job (sample_args None (Some ''ClinVarFullRelease_2017-01.xml.gz'') (Some ''variant_summary.txt.gz''))
                ''ClinVarFullRelease_2017-01.xml.gz'' ''variant_summary.txt.gz'') \<and>
   \<not> optimize (sample_env None [] (Inr 0)) \<and>
   isfile (sample_world (butlast installed @
        [(''vt'', 1400000000), (''hg19.fa'', 1400000000),
         (''ClinVarFullRelease_2017-01.xml.gz'', 1400000000),
         (''variant_summary.txt.gz'', 1400000000)])) ''vt'' \<and>
   \<not> on_path (sample_env None [] (Inr 0))
       (sample_world (butlast installed @
        [(''vt'', 1400000000), (''hg19.fa'', 1400000000),
         (''ClinVarFullRelease_2017-01.xml.gz'', 1400000000),
         (''variant_summary.txt.gz'', 1400000000)])) ''vt'' \<and>
   fst (driver (sample_env None [] (Inr 0))
     (sample_args None (Some ''ClinVarFullRelease_2017-01.xml.gz'') (Some ''variant_summary.txt.gz''))
     (sample_world (butlast installed @
        [(''vt'', 1400000000), (''hg19.fa'', 1400000000),
         (''ClinVarFullRelease_2017-01.xml.gz'', 1400000000),
         (''variant_summary.txt.gz'', 1400000000)]))) =
     Runs [] (build_job (sample_args None (Some ''ClinVarFullRelease_2017-01.xml.gz'') (Some ''variant_summary.txt.gz''))
                ''ClinVarFullRelease_2017-01.xml.gz'' ''variant_summary.txt.gz'')"
  by (simp add: driver_def check_dependencies_def find_executable_def on_path_def isfile_def
        os_path_join_def suffix_Cons validate_inputs_def choose_clinvar_xml_def
        choose_variant_summary_table_def endswith_def JobRunner_new_def
        sample_env_def sample_args_def sample_world_def installed_def del: py_format.simps)

lemma p_error_reference_genome:
  "p_error ''genome reference: file not found: %s'' [v] =
     ParserExit (''genome reference: file not found: '' @ v)"
  by (simp add: p_error_def)

lemma p_error_exac_not_found:
  "p_error ''ExAC sites vcf: file not found: %s'' [v] =
     ParserExit (''ExAC sites vcf: file not found: '' @ v)"
  by (simp add: p_error_def)

lemma p_error_exac_index:
  "p_error ''ExAC sites vcf: tabix index not found: %{s}.tbi'' [v] =
     Uncaught (ValueError (''unsupported format character '' @ [CHR 0x27, CHR ''{'', CHR 0x27]))"
  by (simp add: p_error_def)

lemma p_error_xml_not_found:
  "p_error ''ClinVar XML specified but not found: %s'' [v] =
     ParserExit (''ClinVar XML specified but not found: '' @ v)"
  by (simp add: p_error_def)

lemma p_error_xml_not_gz:
  "p_error ''ClinVar XML expected to be gzipped: %s'' [v] =
     ParserExit (''ClinVar XML expected to be gzipped: '' @ v)"
  by (simp add: p_error_def)

lemma p_error_table_not_found:
  "p_error ''ClinVar variant summary table specified but not found: %s'' [v] =
     ParserExit (''ClinVar variant summary table specified but not found: '' @ v)"
  by (simp add: p_error_def)

lemma p_error_table_not_gz:
  "p_error ''ClinVar variant summary table expected to be gzipped: %s'' [v] =
     ParserExit (''ClinVar variant summary table expected to be gzipped: '' @ v)"
  by (simp add: p_error_def)

lemma validate_inputs_eq:
  "validate_inputs a w =
     (if \<not> isfile w (reference_genome a) then
        Some (ParserExit (''genome reference: file not found: '' @ reference_genome a))
      else if truthy (exac_sites_vcf a) then
        (if \<not> isfile w (arg_value (exac_sites_vcf a)) then
           Some (ParserExit (''ExAC sites vcf: file not found: '' @ arg_value (exac_sites_vcf a)))
         else if \<not> isfile w (arg_value (exac_sites_vcf a) @ ''.tbi'') then
           Some (Uncaught (ValueError (''unsupported format character '' @ [CHR 0x27, CHR ''{'', CHR 0x27])))
         else None)
      else None)"
  unfolding validate_inputs_def p_error_reference_genome p_error_exac_not_found p_error_exac_index ..

text \<open>
  C3 at the input on which the script misses it: the ExAC sites vcf exists and its
  \<^verbatim>\<open>.tbi\<close> index does not. The message of line 42 is written \<^verbatim>\<open>%{s}.tbi\<close>
  where \<^verbatim>\<open>%s.tbi\<close> was meant, so formatting it raises a ValueError before
  \<^verbatim>\<open>p.error\<close> is called: the process still ends early with a non-zero status, but
  what it reports is the format error, not the missing index.
\<close>

theorem missing_tabix_index_raises_ValueError:
  "driver (sample_env None [] (Inr 0))
     (sample_args (Some ''ExAC.r0.3.sites.vep.vcf.gz'') None None)
     (sample_world (installed @ [(''hg19.fa'', 1400000000), (''ExAC.r0.3.sites.vep.vcf.gz'', 1400000000)])) =
     (Exited (Uncaught (ValueError (''unsupported format character '' @ [CHR 0x27, CHR ''{'', CHR 0x27]))),
      sample_world (installed @ [(''hg19.fa'', 1400000000), (''ExAC.r0.3.sites.vep.vcf.gz'', 1400000000)]))"
  by (simp add: driver_def check_dependencies_def find_executable_def os_path_join_def suffix_Cons
        validate_inputs_def p_error_def isfile_def
        sample_env_def sample_args_def sample_world_def installed_def)

lemma check_dependencies_cong:
  assumes i: "import_module env1 = import_module env2" and o: "optimize env1 = optimize env2"
    and p: "path_dirs env1 = path_dirs env2"
  shows "check_dependencies env1 w = check_dependencies env2 w"
proof -
  have a: "first_import_error env1 ms = first_import_error env2 ms" for ms
    by (induction ms) (simp_all add: i split: option.splits)
  have f: "find_executable env1 w x = find_executable env2 w x" for x
    by (simp add: find_executable_def p)
  have b: "check_executables env1 w xs = check_executables env2 w xs" for xs
    by (induction xs) (simp_all add: f o del: py_format.simps)
  show ?thesis
    unfolding check_dependencies_def a b i ..
qed

lemma choose_clinvar_xml_supplied:
  "truthy (clinvar_xml a) \<Longrightarrow>
     choose_clinvar_xml env a jr w =
       (if \<not> isfile w (arg_value (clinvar_xml a)) then
          (Inl (p_error ''ClinVar XML specified but not found: %s'' [arg_value (clinvar_xml a)]), jr, w)
        else if \<not> endswith (arg_value (clinvar_xml a)) ''.gz'' then
          (Inl (p_error ''ClinVar XML expected to be gzipped: %s'' [arg_value (clinvar_xml a)]), jr, w)
        else (Inr (arg_value (clinvar_xml a)), jr, w))"
  by (simp add: choose_clinvar_xml_def del: py_format.simps)

lemma choose_variant_summary_table_supplied:
  "truthy (clinvar_variant_summary_table a) \<Longrightarrow>
     choose_variant_summary_table env a jr w =
       (if \<not> isfile w (arg_value (clinvar_variant_summary_table a)) then
          (Inl (p_error ''ClinVar variant summary table specified but not found: %s''
                  [arg_value (clinvar_variant_summary_table a)]), jr, w)
        else if \<not> endswith (arg_value (clinvar_variant_summary_table a)) ''.gz'' then
          (Inl (p_error ''ClinVar variant summary table expected to be gzipped: %s''
                  [arg_value (clinvar_variant_summary_table a)]), jr, w)
        else (Inr (arg_value (clinvar_variant_summary_table a)), jr, w))"
  by (simp add: choose_variant_summary_table_def del: py_format.simps)

lemma driver_supplied:
  assumes "truthy (clinvar_xml a)" and "truthy (clinvar_variant_summary_table a)"
  shows "driver env a w =
     (case check_dependencies env w of
        Some x \<Rightarrow> (Exited x, w)
      | None \<Rightarrow>
          (case validate_inputs a w of
             Some x \<Rightarrow> (Exited x, w)
           | None \<Rightarrow>
               (if \<not> isfile w (arg_value (clinvar_xml a)) then
                  (Exited (p_error ''ClinVar XML specified but not found: %s'' [arg_value (clinvar_xml a)]), w)
                else if \<not> endswith (arg_value (clinvar_xml a)) ''.gz'' then
                  (Exited (p_error ''ClinVar XML expected to be gzipped: %s'' [arg_value (clinvar_xml a)]), w)
                else if \<not> isfile w (arg_value (clinvar_variant_summary_table a)) then
                  (Exited (p_error ''ClinVar variant summary table specified but not found: %s''
                     [arg_value (clinvar_variant_summary_table a)]), w)
                else if \<not> endswith (arg_value (clinvar_variant_summary_table a)) ''.gz'' then
                  (Exited (p_error ''ClinVar variant summary table expected to be gzipped: %s''
                     [arg_value (clinvar_variant_summary_table a)]), w)
                else (Runs [] (build_job a (arg_value (clinvar_xml a))
                                 (arg_value (clinvar_variant_summary_table a))), w))))"
  unfolding driver_def choose_clinvar_xml_supplied [OF assms(1)]
    choose_variant_summary_table_supplied [OF assms(2)]
  by (simp add: JobRunner_new_def split: option.splits del: py_format.simps)

text \<open>
  Whatever input is invalid (the reference genome, the ExAC sites vcf or its index, a
  supplied ClinVar file that is missing or is not named \<^verbatim>\<open>.gz\<close>), the driver
  ends early with a non-zero status and never reaches the job runner.
\<close>

lemma files_choose_clinvar_xml:
  "files (snd (snd (choose_clinvar_xml env a jr w))) = files w"
proof (cases "truthy (clinvar_xml a)")
  case True
  then show ?thesis by (simp add: choose_clinvar_xml_supplied del: py_format.simps)
next
  case False
  have "files (snd (snd (download_if_changed env jr ''ClinVarFullRelease_00-latest.xml.gz''
                ''ftp.ncbi.nlm.nih.gov'' ''/pub/clinvar/xml/ClinVarFullRelease_00-latest.xml.gz''
                (print_line ''Checking for new clinvar release'' w)))) = files w"
    by (simp add: files_download_if_changed print_line_def)
  then show ?thesis
    using False by (auto simp: choose_clinvar_xml_def split: prod.splits option.splits)
qed

lemma exit_status_pos: "0 < exit_status x"
  by (cases x) simp_all

lemma invalid_input_never_runs:
  assumes "\<not> isfile w (reference_genome a) \<or>
           truthy (exac_sites_vcf a) \<and>
             (\<not> isfile w (arg_value (exac_sites_vcf a)) \<or>
              \<not> isfile w (arg_value (exac_sites_vcf a) @ ''.tbi'')) \<or>
           truthy (clinvar_xml a) \<and>
             (\<not> isfile w (arg_value (clinvar_xml a)) \<or>
              \<not> endswith (arg_value (clinvar_xml a)) ''.gz'') \<or>
           truthy (clinvar_variant_summary_table a) \<and>
             (\<not> isfile w (arg_value (clinvar_variant_summary_table a)) \<or>
              \<not> endswith (arg_value (clinvar_variant_summary_table a)) ''.gz'')"
  shows "\<exists>x w'. driver env a w = (Exited x, w') \<and> 0 < exit_status x"
proof -
  have "\<exists>x w'. driver env a w = (Exited x, w')"
  proof (cases "check_dependencies env w")
    case (Some x)
    then show ?thesis by (simp add: driver_def)
  next
    case None
    show ?thesis
    proof (cases "validate_inputs a w")
      case (Some x)
      then show ?thesis using None by (simp add: driver_def)
    next
      case v: None
      from v have r: "isfile w (reference_genome a)"
        and e: "truthy (exac_sites_vcf a) \<Longrightarrow> isfile w (arg_value (exac_sites_vcf a)) \<and>
              isfile w (arg_value (exac_sites_vcf a) @ ''.tbi'')"
        by (auto simp: validate_inputs_eq split: if_splits)
      obtain rx jr w1 where cx: "choose_clinvar_xml env a JobRunner_new w = (rx, jr, w1)"
        by (cases "choose_clinvar_xml env a JobRunner_new w") auto
      have f: "files w1 = files w"
        using files_choose_clinvar_xml [of env a JobRunner_new w] cx by simp
      show ?thesis
      proof (cases rx)
        case (Inl x)
        then show ?thesis using None v cx by (simp add: driver_def)
      next
        case (Inr xml)
        have x_ok: "\<not> (truthy (clinvar_xml a) \<and>
             (\<not> isfile w (arg_value (clinvar_xml a)) \<or> \<not> endswith (arg_value (clinvar_xml a)) ''.gz''))"
          using cx Inr by (auto simp: choose_clinvar_xml_supplied simp del: py_format.simps split: if_splits)
        with assms r e have s: "truthy (clinvar_variant_summary_table a)"
          and s_bad: "\<not> isfile w1 (arg_value (clinvar_variant_summary_table a)) \<or>
              \<not> endswith (arg_value (clinvar_variant_summary_table a)) ''.gz''"
          using f by (auto simp: isfile_def)
        from s s_bad have "\<exists>y. choose_variant_summary_table env a jr w1 = (Inl y, jr, w1)"
          by (cases "isfile w1 (arg_value (clinvar_variant_summary_table a))")
            (simp_all add: choose_variant_summary_table_supplied del: py_format.simps)
        then show ?thesis using None v cx Inr by (auto simp: driver_def)
      qed
    qed
  qed
  then show ?thesis using exit_status_pos by blast
qed

text \<open>
  C10: when both \<^verbatim>\<open>--clinvar-xml\<close> and \<^verbatim>\<open>--clinvar-variant-summary-table\<close> are
  supplied, what the driver does is independent of the FTP server and of the time
  functions: two environments that agree on the modules, on the interpreter's
  \<^verbatim>\<open>-O\<close> mode and on \<^verbatim>\<open>PATH\<close> give the same outcome and the same world; no network operation is attempted; and if the driver
  reaches the first run of the job runner, the parallel queue it hands over is empty.
\<close>

theorem supplied_inputs_independent_of_remote:
  assumes "truthy (clinvar_xml a)" and "truthy (clinvar_variant_summary_table a)"
    and "import_module env1 = import_module env2" and "optimize env1 = optimize env2"
    and "path_dirs env1 = path_dirs env2"
  shows "driver env1 a w = driver env2 a w \<and>
         net (snd (driver env1 a w)) = net w \<and>
         (\<forall>queue job. fst (driver env1 a w) = Runs queue job \<longrightarrow> queue = [])"
proof -
  have "driver env1 a w = driver env2 a w"
    unfolding driver_supplied [OF assms(1,2)] check_dependencies_cong [OF assms(3,4,5)] ..
  moreover have "snd (driver env1 a w) = w"
    unfolding driver_supplied [OF assms(1,2)]
    by (simp split: option.splits del: py_format.simps)
  moreover have "queue = []" if "fst (driver env1 a w) = Runs queue job" for queue job
    using that unfolding driver_supplied [OF assms(1,2)]
    by (simp split: option.splits if_splits del: py_format.simps)
  ultimately show ?thesis by simp
qed

theorem supplied_inputs_independent_of_remote_witness:
  "truthy (clinvar_xml (sample_args None (Some ''ClinVarFullRelease_2017-01.xml.gz'') (Some ''variant_summary.txt.gz''))) \<and>
   truthy (clinvar_variant_summary_table (sample_args None (Some ''ClinVarFullRelease_2017-01.xml.gz'') (Some ''variant_summary.txt.gz''))) \<and>
   import_module (sample_env None ''213 20170101000000'' (Inr 1483228800)) =
     import_module (sample_env (Some (IOError ''timed out'')) [] (Inr 0)) \<and>
   optimize (sample_env None ''213 20170101000000'' (Inr 1483228800)) =
     optimize (sample_env (Some (IOError ''timed out'')) [] (Inr 0)) \<and>
   path_dirs (sample_env None ''213 20170101000000'' (Inr 1483228800)) =
     path_dirs (sample_env (Some (IOError ''timed out'')) [] (Inr 0)) \<and>
   driver (sample_env None ''213 20170101000000'' (Inr 1483228800))
     (sample_args None (Some ''ClinVarFullRelease_2017-01.xml.gz'') (Some ''variant_summary.txt.gz''))
     (sample_world (installed @
        [(''hg19.fa'', 1400000000), (''ClinVarFullRelease_2017-01.xml.gz'', 1400000000),
         (''variant_summary.txt.gz'', 1400000000)])) =
   driver (sample_env (Some (IOError ''timed out'')) [] (Inr 0))
     (sample_args None (Some ''ClinVarFullRelease_2017-01.xml.gz'') (Some ''variant_summary.txt.gz''))
     (sample_world (installed @
        [(''hg19.fa'', 1400000000), (''ClinVarFullRelease_2017-01.xml.gz'', 1400000000),
         (''variant_summary.txt.gz'', 1400000000)])) \<and>
   fst (driver (sample_env None ''213 20170101000000'' (Inr 1483228800))
     (sample_args None (Some ''ClinVarFullRelease_2017-01.xml.gz'') (Some ''variant_summary.txt.gz''))
     (sample_world (installed @
        [(''hg19.fa'', 1400000000), (''ClinVarFullRelease_2017-01.xml.gz'', 1400000000),
         (''variant_summary.txt.gz'', 1400000000)]))) =
     Runs [] (build_job (sample_args None (Some ''ClinVarFullRelease_2017-01.xml.gz'') (Some ''variant_summary.txt.gz''))
                ''ClinVarFullRelease_2017-01.xml.gz'' ''variant_summary.txt.gz'')"
proof -
  let ?env1 = "sample_env None ''213 20170101000000'' (Inr 1483228800)"
  let ?env2 = "sample_env (Some (IOError ''timed out'')) [] (Inr 0)"
  let ?a = "sample_args None (Some ''ClinVarFullRelease_2017-01.xml.gz'') (Some ''variant_summary.txt.gz'')"
  let ?w = "sample_world (installed @
        [(''hg19.fa'', 1400000000), (''ClinVarFullRelease_2017-01.xml.gz'', 1400000000),
         (''variant_summary.txt.gz'', 1400000000)])"
  have x: "truthy (clinvar_xml ?a)" and s: "truthy (clinvar_variant_summary_table ?a)"
    by (simp_all add: sample_args_def)
  have i: "import_module ?env1 = import_module ?env2"
    and o: "optimize ?env1 = optimize ?env2"
    and p: "path_dirs ?env1 = path_dirs ?env2"
    by (simp_all add: sample_env_def)
  have d: "driver ?env1 ?a ?w = driver ?env2 ?a ?w"
    using supplied_inputs_independent_of_remote [OF x s i o p, of ?w] by (elim conjE)
  have r: "fst (driver ?env1 ?a ?w) =
      Runs [] (build_job ?a ''ClinVarFullRelease_2017-01.xml.gz'' ''variant_summary.txt.gz'')"
    unfolding driver_supplied [OF x s]
    by (simp add: check_dependencies_def find_executable_def os_path_join_def suffix_Cons
          validate_inputs_def isfile_def endswith_def
          sample_env_def sample_args_def sample_world_def installed_def del: py_format.simps)
  from x s i o p d r show ?thesis by (intro conjI)
qed

section \<open>Properties of the job runner\<close>

lemma run_job_all_up_to_date:
  "list_all (up_to_date (fs st)) job \<Longrightarrow> run_job exec job st = (True, st)"
  by (induction job) (simp_all add: run_step_def)

lemma run_step_skips:
  "up_to_date (fs st) c \<Longrightarrow> run_step exec c st = (Skipped, st)"
  by (simp add: run_step_def)

lemma run_step_spawns:
  "\<not> up_to_date (fs st) c \<Longrightarrow>
     spawned (snd (run_step exec c st)) = spawned st @ [command c] \<and>
     fst (run_step exec c st) \<noteq> Skipped"
  by (simp add: run_step_def split: prod.splits)

text \<open>
  C5: in a sequential job, a command whose declared outputs all exist and are at least
  as new as all its declared inputs is skipped: no process is started, the state is
  unchanged and the runner goes on with the next step. Any other command is started
  exactly once: the list of started commands grows by this command alone. A job whose
  steps are all up to date runs to its end and starts nothing.
\<close>

theorem runner_skips_up_to_date_steps:
  "(up_to_date (fs st) c \<longrightarrow>
      run_step exec c st = (Skipped, st) \<and> run_job exec (c # cs) st = run_job exec cs st) \<and>
   (\<not> up_to_date (fs st) c \<longrightarrow>
      spawned (snd (run_step exec c st)) = spawned st @ [command c] \<and>
      fst (run_step exec c st) \<noteq> Skipped) \<and>
   (list_all (up_to_date (fs st)) job \<longrightarrow> run_job exec job st = (True, st))"
  using run_job_all_up_to_date [of st job exec] run_step_spawns [of st c exec]
  by (simp add: run_step_skips)

lemma sample_step_declared:
  "declared_inputs sample_step = [''clinvar_stats.txt''] \<and>
   declared_outputs sample_step = [''clinvar_stats_copy.txt'']"
  by (simp add: declared_inputs_def declared_outputs_def marked_def tokens_def is_space_def sample_step_def)

theorem runner_skips_up_to_date_steps_witness:
  "up_to_date [''clinvar_stats.txt'' \<mapsto> 10, ''clinvar_stats_copy.txt'' \<mapsto> 20] sample_step \<and>
   run_job sample_exec [sample_step, sample_step]
     \<lparr>fs = [''clinvar_stats.txt'' \<mapsto> 10, ''clinvar_stats_copy.txt'' \<mapsto> 20], spawned = []\<rparr> =
     (True, \<lparr>fs = [''clinvar_stats.txt'' \<mapsto> 10, ''clinvar_stats_copy.txt'' \<mapsto> 20], spawned = []\<rparr>) \<and>
   \<not> up_to_date [''clinvar_stats.txt'' \<mapsto> 10] sample_step \<and>
   spawned (snd (run_step sample_exec sample_step \<lparr>fs = [''clinvar_stats.txt'' \<mapsto> 10], spawned = []\<rparr>)) =
     [''cp IN:clinvar_stats.txt OUT:clinvar_stats_copy.txt'']"
proof -
  let ?f = "[''clinvar_stats.txt'' \<mapsto> 10, ''clinvar_stats_copy.txt'' \<mapsto> (20::rat)]"
  let ?g = "[''clinvar_stats.txt'' \<mapsto> (10::rat)]"
  have u: "up_to_date ?f sample_step"
    by (simp add: up_to_date_def sample_step_declared at_least_as_new_def)
  have n: "\<not> up_to_date ?g sample_step"
    by (simp add: up_to_date_def sample_step_declared at_least_as_new_def)
  have a: "list_all (up_to_date (fs \<lparr>fs = ?f, spawned = []\<rparr>)) [sample_step, sample_step]"
    using u by simp
  have 1: "run_job sample_exec [sample_step, sample_step] \<lparr>fs = ?f, spawned = []\<rparr> =
      (True, \<lparr>fs = ?f, spawned = []\<rparr>)"
    using runner_skips_up_to_date_steps [of "\<lparr>fs = ?f, spawned = []\<rparr>" sample_step sample_exec "[]"
        "[sample_step, sample_step]"] a
    by (elim conjE) simp
  have 2: "spawned (snd (run_step sample_exec sample_step \<lparr>fs = ?g, spawned = []\<rparr>)) =
      [''cp IN:clinvar_stats.txt OUT:clinvar_stats_copy.txt'']"
    using runner_skips_up_to_date_steps [of "\<lparr>fs = ?g, spawned = []\<rparr>" sample_step sample_exec "[]" "[]"] n
    by (elim conjE) (simp add: sample_step_def)
  from u 1 n 2 show ?thesis by (intro conjI)
qed

section \<open>Properties of the sequential job\<close>

lemma choose_clinvar_xml_Inr:
  "choose_clinvar_xml env a jr w = (Inr x, jr', w') \<Longrightarrow>
     x = (if truthy (clinvar_xml a) then arg_value (clinvar_xml a)
          else ''ClinVarFullRelease_00-latest.xml.gz'')"
  by (auto simp: choose_clinvar_xml_def simp del: py_format.simps
        split: if_splits prod.splits option.splits)

lemma choose_variant_summary_table_Inr:
  "choose_variant_summary_table env a jr w = (Inr x, jr', w') \<Longrightarrow>
     x = (if truthy (clinvar_variant_summary_table a) then arg_value (clinvar_variant_summary_table a)
          else ''variant_summary.txt.gz'')"
  by (auto simp: choose_variant_summary_table_def simp del: py_format.simps
        split: if_splits prod.splits option.splits)

lemma driver_Runs:
  assumes "fst (driver env a w) = Runs queue job"
  shows "\<exists>jr w1 jr' w2.
           check_dependencies env w = None \<and> validate_inputs a w = None \<and>
           choose_clinvar_xml env a JobRunner_new w =
             (Inr (if truthy (clinvar_xml a) then arg_value (clinvar_xml a)
                   else ''ClinVarFullRelease_00-latest.xml.gz''), jr, w1) \<and>
           choose_variant_summary_table env a jr w1 =
             (Inr (if truthy (clinvar_variant_summary_table a)
                   then arg_value (clinvar_variant_summary_table a)
                   else ''variant_summary.txt.gz''), jr', w2) \<and>
           queue = parallel_queue jr' \<and>
           job = build_job a
                   (if truthy (clinvar_xml a) then arg_value (clinvar_xml a)
                    else ''ClinVarFullRelease_00-latest.xml.gz'')
                   (if truthy (clinvar_variant_summary_table a)
                    then arg_value (clinvar_variant_summary_table a)
                    else ''variant_summary.txt.gz'') \<and>
           snd (driver env a w) = w2"
proof -
  from assms have c: "check_dependencies env w = None"
    by (cases "check_dependencies env w") (simp_all add: driver_def)
  from assms c have v: "validate_inputs a w = None"
    by (cases "validate_inputs a w") (simp_all add: driver_def)
  obtain rx jr w1 where cx: "choose_clinvar_xml env a JobRunner_new w = (rx, jr, w1)"
    by (cases "choose_clinvar_xml env a JobRunner_new w") auto
  from assms c v cx obtain x where rx: "rx = Inr x"
    by (cases rx) (simp_all add: driver_def)
  obtain rs jr' w2 where cs: "choose_variant_summary_table env a jr w1 = (rs, jr', w2)"
    by (cases "choose_variant_summary_table env a jr w1") auto
  from assms c v cx rx cs obtain s where rs: "rs = Inr s"
    by (cases rs) (simp_all add: driver_def)
  have d: "driver env a w = (Runs (parallel_queue jr') (build_job a x s), w2)"
    using c v cx rx cs rs by (simp add: driver_def)
  have x: "x = (if truthy (clinvar_xml a) then arg_value (clinvar_xml a)
                else ''ClinVarFullRelease_00-latest.xml.gz'')"
    using cx rx choose_clinvar_xml_Inr by blast
  have s: "s = (if truthy (clinvar_variant_summary_table a)
                then arg_value (clinvar_variant_summary_table a)
                else ''variant_summary.txt.gz'')"
    using cs rs choose_variant_summary_table_Inr by blast
  have q: "queue = parallel_queue jr'" and j: "job = build_job a x s"
    using assms d by simp_all
  show ?thesis
    using c v cx cs d q j unfolding rx rs x s by (intro exI conjI) simp_all
qed

lemma driver_Runs_build_job:
  assumes "fst (driver env a w) = Runs queue job"
  shows "job = build_job a
                 (if truthy (clinvar_xml a) then arg_value (clinvar_xml a)
                  else ''ClinVarFullRelease_00-latest.xml.gz'')
                 (if truthy (clinvar_variant_summary_table a)
                  then arg_value (clinvar_variant_summary_table a)
                  else ''variant_summary.txt.gz'')"
  using driver_Runs [OF assms] by (elim exE conjE)

text \<open>
  C8: whenever the driver reaches \<^verbatim>\<open>jr.run(job)\<close>, the job it hands over holds
  exactly these steps, in this order: parse the ClinVar XML (the file given with
  \<^verbatim>\<open>-X\<close>, else the fixed local name); fetch the normalization script and run it; join
  with the variant summary table (the file given with \<^verbatim>\<open>-S\<close>, else the fixed local
  name); sort by genomic coordinates; deduplicate and compress; index the table and
  copy it; derive the VCF, index it and copy it; then, only when \<^verbatim>\<open>-E\<close> is given,
  the five steps of the ExAC-augmented table; then the three example files, the
  statistics summary and its copy. No step is missing, doubled or out of place.
\<close>

theorem job_steps_in_order:
  assumes \<open>fst (driver env a w) = Runs queue job\<close>
  shows \<open>job = build_job a (if truthy (clinvar_xml a) then arg_value (clinvar_xml a) else ''ClinVarFullRelease_00-latest.xml.gz'')
                 (if truthy (clinvar_variant_summary_table a) then arg_value (clinvar_variant_summary_table a)
         else ''variant_summary.txt.gz'') \<and>
   map command job =
     [''python -u IN:parse_clinvar_xml.py -x IN:'' @ (if truthy (clinvar_xml a) then arg_value (clinvar_xml a) else ''ClinVarFullRelease_00-latest.xml.gz'') @ '' -o OUT:clinvar_table_raw.tsv -a '' @ assembly a,
      ''wget -N https://raw.githubusercontent.com/ericminikel/minimal_representation/master/normalize.py'',
      ''python -u normalize.py -R IN:'' @ reference_genome a @ '' < IN:clinvar_table_raw.tsv > OUT:clinvar_table_normalized.tsv'',
      ''Rscript IN:join_data.R IN:'' @ (if truthy (clinvar_variant_summary_table a) then arg_value (clinvar_variant_summary_table a) else ''variant_summary.txt.gz''),
      ''(cat IN:clinvar_combined.tsv | head -1 > OUT:clinvar_combined_sorted.tsv ) && (cat IN:clinvar_combined.tsv | tail -n +2 | egrep -v "^[XYM]" | sort -k1,1n -k2,2n -k3,3 -k4,4 >> OUT:clinvar_combined_sorted.tsv ) && (cat IN:clinvar_combined.tsv | tail -n +2 | egrep "^[XYM]" | sort -k1,1 -k2,2n -k3,3 -k4,4 >> OUT:clinvar_combined_sorted.tsv )'',
      ''python -u IN:dedup_clinvar.py < IN:clinvar_combined_sorted.tsv | tee clinvar.tsv | bgzip -c > OUT:clinvar.tsv.gz'',
      ''tabix -S 1 -s 1 -b 2 -e 2 IN:clinvar.tsv.gz'',
      ''cp IN:clinvar.tsv.gz IN:clinvar.tsv.gz.tbi ../'',
      ''python -u IN:clinvar_table_to_vcf.py IN:clinvar.tsv | bgzip -c > OUT:clinvar.vcf.gz'',
      ''tabix IN:clinvar.vcf.gz'',
      ''cp IN:clinvar.vcf.gz IN:clinvar.vcf.gz.tbi ../''] @
     (if truthy (exac_sites_vcf a) then
        [''vt decompose -s IN:'' @ arg_value (exac_sites_vcf a) @ '' | vt normalize -r IN:'' @ reference_genome a @ '' - | bgzip -c > OUT:'' @ (before_first ''.vcf'' (basename (arg_value (exac_sites_vcf a))) @ ''.normalized.vcf.gz''),
         ''tabix IN:'' @ (before_first ''.vcf'' (basename (arg_value (exac_sites_vcf a))) @ ''.normalized.vcf.gz''),
         ''python -u IN:add_exac_fields.py -i IN:clinvar.tsv -e IN:'' @ (before_first ''.vcf'' (basename (arg_value (exac_sites_vcf a))) @ ''.normalized.vcf.gz'') @ '' | bgzip -c > OUT:clinvar_with_exac.tsv.gz'',
         ''tabix -S 1 -s 1 -b 2 -e 2 IN:clinvar_with_exac.tsv.gz'',
         ''cp IN:clinvar_with_exac.tsv.gz IN:clinvar_with_exac.tsv.gz.tbi ../'']
      else []) @
     [''gunzip -c IN:clinvar.vcf.gz | head -n 750 > OUT:../clinvar_example_750_rows.vcf'',
      ''gunzip -c IN:clinvar.tsv.gz | head -n 750 > OUT:../clinvar_example_750_rows.tsv'',
      ''gunzip -c IN:clinvar_with_exac.tsv.gz | head -n 750 > OUT:../clinvar_with_exac_example_750_rows.tsv'',
      ''echo Columns: $(gunzip -c clinvar.tsv.gz | head -n 1 | python -c "import sys;print(', '.join(['%s: %s'%(i+1,v) for l in sys.stdin for i,v in enumerate(l.split())]))") > OUT:clinvar_stats.txt &&\<newline>echo ================ >> OUT:clinvar_stats.txt &&\<newline>echo Total Rows: $(gunzip -c clinvar.tsv.gz | tail -n +2 | wc -l) >> OUT:clinvar_stats.txt &&\<newline>for i in 8 9 10 11 12 13 19 20 21 22 23; do \<newline>    echo ================ >> OUT:clinvar_stats.txt ;\<newline>    gunzip -c IN:clinvar.tsv.gz | head -n 1 | cut -f $i >> OUT:clinvar_stats.txt ;\<newline>    gunzip -c IN:clinvar.tsv.gz | tail -n +2 | cut -f $i | tr ';' '\<newline>' | sort | uniq -c | sort -r -n >> OUT:clinvar_stats.txt ;\<newline>done\<newline>'',
      ''cp IN:clinvar_stats.txt OUT:../clinvar_stats.txt'']\<close>
proof -
  have j: \<open>job = build_job a (if truthy (clinvar_xml a) then arg_value (clinvar_xml a) else ''ClinVarFullRelease_00-latest.xml.gz'')
                 (if truthy (clinvar_variant_summary_table a) then arg_value (clinvar_variant_summary_table a)
         else ''variant_summary.txt.gz'')\<close>
    using assms by (rule driver_Runs_build_job)
  show ?thesis
    unfolding j
    by (simp add: build_job_def main_steps_def exac_steps_def final_steps_def add_def Let_def)
qed

theorem job_steps_in_order_witness:
  \<open>fst (driver (sample_env None [] (Inr 0))
     (sample_args (Some ''ExAC.r0.3.sites.vep.vcf.gz'') (Some ''ClinVarFullRelease_2017-01.xml.gz'')
        (Some ''variant_summary.txt.gz''))
     (sample_world (installed @
        [(''hg19.fa'', 1400000000), (''ExAC.r0.3.sites.vep.vcf.gz'', 1400000000),
         (''ExAC.r0.3.sites.vep.vcf.gz.tbi'', 1400000000),
         (''ClinVarFullRelease_2017-01.xml.gz'', 1400000000),
         (''variant_summary.txt.gz'', 1400000000)]))) =
     Runs [] (build_job (sample_args (Some ''ExAC.r0.3.sites.vep.vcf.gz'') (Some ''ClinVarFullRelease_2017-01.xml.gz'')
        (Some ''variant_summary.txt.gz''))
                ''ClinVarFullRelease_2017-01.xml.gz'' ''variant_summary.txt.gz'') \<and>
   map command (build_job (sample_args (Some ''ExAC.r0.3.sites.vep.vcf.gz'') (Some ''ClinVarFullRelease_2017-01.xml.gz'')
        (Some ''variant_summary.txt.gz''))
                  ''ClinVarFullRelease_2017-01.xml.gz'' ''variant_summary.txt.gz'') =
     [''python -u IN:parse_clinvar_xml.py -x IN:ClinVarFullRelease_2017-01.xml.gz -o OUT:clinvar_table_raw.tsv -a GRCh37'',
      ''wget -N https://raw.githubusercontent.com/ericminikel/minimal_representation/master/normalize.py'',
      ''python -u normalize.py -R IN:hg19.fa < IN:clinvar_table_raw.tsv > OUT:clinvar_table_normalized.tsv'',
      ''Rscript IN:join_data.R IN:variant_summary.txt.gz'',
      ''(cat IN:clinvar_combined.tsv | head -1 > OUT:clinvar_combined_sorted.tsv ) && (cat IN:clinvar_combined.tsv | tail -n +2 | egrep -v "^[XYM]" | sort -k1,1n -k2,2n -k3,3 -k4,4 >> OUT:clinvar_combined_sorted.tsv ) && (cat IN:clinvar_combined.tsv | tail -n +2 | egrep "^[XYM]" | sort -k1,1 -k2,2n -k3,3 -k4,4 >> OUT:clinvar_combined_sorted.tsv )'',
      ''python -u IN:dedup_clinvar.py < IN:clinvar_combined_sorted.tsv | tee clinvar.tsv | bgzip -c > OUT:clinvar.tsv.gz'',
      ''tabix -S 1 -s 1 -b 2 -e 2 IN:clinvar.tsv.gz'',
      ''cp IN:clinvar.tsv.gz IN:clinvar.tsv.gz.tbi ../'',
      ''python -u IN:clinvar_table_to_vcf.py IN:clinvar.tsv | bgzip -c > OUT:clinvar.vcf.gz'',
      ''tabix IN:clinvar.vcf.gz'',
      ''cp IN:clinvar.vcf.gz IN:clinvar.vcf.gz.tbi ../'',
      ''vt decompose -s IN:ExAC.r0.3.sites.vep.vcf.gz | vt normalize -r IN:hg19.fa - | bgzip -c > OUT:ExAC.r0.3.sites.vep.normalized.vcf.gz'',
      ''tabix IN:ExAC.r0.3.sites.vep.normalized.vcf.gz'',
      ''python -u IN:add_exac_fields.py -i IN:clinvar.tsv -e IN:ExAC.r0.3.sites.vep.normalized.vcf.gz | bgzip -c > OUT:clinvar_with_exac.tsv.gz'',
      ''tabix -S 1 -s 1 -b 2 -e 2 IN:clinvar_with_exac.tsv.gz'',
      ''cp IN:clinvar_with_exac.tsv.gz IN:clinvar_with_exac.tsv.gz.tbi ../'',
      ''gunzip -c IN:clinvar.vcf.gz | head -n 750 > OUT:../clinvar_example_750_rows.vcf'',
      ''gunzip -c IN:clinvar.tsv.gz | head -n 750 > OUT:../clinvar_example_750_rows.tsv'',
      ''gunzip -c IN:clinvar_with_exac.tsv.gz | head -n 750 > OUT:../clinvar_with_exac_example_750_rows.tsv'',
      ''echo Columns: $(gunzip -c clinvar.tsv.gz | head -n 1 | python -c "import sys;print(', '.join(['%s: %s'%(i+1,v) for l in sys.stdin for i,v in enumerate(l.split())]))") > OUT:clinvar_stats.txt &&\<newline>echo ================ >> OUT:clinvar_stats.txt &&\<newline>echo Total Rows: $(gunzip -c clinvar.tsv.gz | tail -n +2 | wc -l) >> OUT:clinvar_stats.txt &&\<newline>for i in 8 9 10 11 12 13 19 20 21 22 23; do \<newline>    echo ================ >> OUT:clinvar_stats.txt ;\<newline>    gunzip -c IN:clinvar.tsv.gz | head -n 1 | cut -f $i >> OUT:clinvar_stats.txt ;\<newline>    gunzip -c IN:clinvar.tsv.gz | tail -n +2 | cut -f $i | tr ';' '\<newline>' | sort | uniq -c | sort -r -n >> OUT:clinvar_stats.txt ;\<newline>done\<newline>'',
      ''cp IN:clinvar_stats.txt OUT:../clinvar_stats.txt'']\<close>
proof -
  let ?a = \<open>(sample_args (Some ''ExAC.r0.3.sites.vep.vcf.gz'') (Some ''ClinVarFullRelease_2017-01.xml.gz'')
        (Some ''variant_summary.txt.gz''))\<close>
  let ?w = \<open>(sample_world (installed @
        [(''hg19.fa'', 1400000000), (''ExAC.r0.3.sites.vep.vcf.gz'', 1400000000),
         (''ExAC.r0.3.sites.vep.vcf.gz.tbi'', 1400000000),
         (''ClinVarFullRelease_2017-01.xml.gz'', 1400000000),
         (''variant_summary.txt.gz'', 1400000000)]))\<close>
  have x: \<open>truthy (clinvar_xml ?a)\<close> and s: \<open>truthy (clinvar_variant_summary_table ?a)\<close>
    by (simp_all add: sample_args_def)
  have d: \<open>fst (driver (sample_env None [] (Inr 0)) ?a ?w) =
      Runs [] (build_job ?a ''ClinVarFullRelease_2017-01.xml.gz'' ''variant_summary.txt.gz'')\<close>
    unfolding driver_supplied [OF x s]
    by (simp add: check_dependencies_def find_executable_def os_path_join_def suffix_Cons
          validate_inputs_eq isfile_def endswith_def
          sample_env_def sample_args_def sample_world_def installed_def del: py_format.simps)
  have m: \<open>map command (build_job ?a ''ClinVarFullRelease_2017-01.xml.gz'' ''variant_summary.txt.gz'') =
     [''python -u IN:parse_clinvar_xml.py -x IN:ClinVarFullRelease_2017-01.xml.gz -o OUT:clinvar_table_raw.tsv -a GRCh37'',
      ''wget -N https://raw.githubusercontent.com/ericminikel/minimal_representation/master/normalize.py'',
      ''python -u normalize.py -R IN:hg19.fa < IN:clinvar_table_raw.tsv > OUT:clinvar_table_normalized.tsv'',
      ''Rscript IN:join_data.R IN:variant_summary.txt.gz'',
      ''(cat IN:clinvar_combined.tsv | head -1 > OUT:clinvar_combined_sorted.tsv ) && (cat IN:clinvar_combined.tsv | tail -n +2 | egrep -v "^[XYM]" | sort -k1,1n -k2,2n -k3,3 -k4,4 >> OUT:clinvar_combined_sorted.tsv ) && (cat IN:clinvar_combined.tsv | tail -n +2 | egrep "^[XYM]" | sort -k1,1 -k2,2n -k3,3 -k4,4 >> OUT:clinvar_combined_sorted.tsv )'',
      ''python -u IN:dedup_clinvar.py < IN:clinvar_combined_sorted.tsv | tee clinvar.tsv | bgzip -c > OUT:clinvar.tsv.gz'',
      ''tabix -S 1 -s 1 -b 2 -e 2 IN:clinvar.tsv.gz'',
      ''cp IN:clinvar.tsv.gz IN:clinvar.tsv.gz.tbi ../'',
      ''python -u IN:clinvar_table_to_vcf.py IN:clinvar.tsv | bgzip -c > OUT:clinvar.vcf.gz'',
      ''tabix IN:clinvar.vcf.gz'',
      ''cp IN:clinvar.vcf.gz IN:clinvar.vcf.gz.tbi ../'',
      ''vt decompose -s IN:ExAC.r0.3.sites.vep.vcf.gz | vt normalize -r IN:hg19.fa - | bgzip -c > OUT:ExAC.r0.3.sites.vep.normalized.vcf.gz'',
      ''tabix IN:ExAC.r0.3.sites.vep.normalized.vcf.gz'',
      ''python -u IN:add_exac_fields.py -i IN:clinvar.tsv -e IN:ExAC.r0.3.sites.vep.normalized.vcf.gz | bgzip -c > OUT:clinvar_with_exac.tsv.gz'',
      ''tabix -S 1 -s 1 -b 2 -e 2 IN:clinvar_with_exac.tsv.gz'',
      ''cp IN:clinvar_with_exac.tsv.gz IN:clinvar_with_exac.tsv.gz.tbi ../'',
      ''gunzip -c IN:clinvar.vcf.gz | head -n 750 > OUT:../clinvar_example_750_rows.vcf'',
      ''gunzip -c IN:clinvar.tsv.gz | head -n 750 > OUT:../clinvar_example_750_rows.tsv'',
      ''gunzip -c IN:clinvar_with_exac.tsv.gz | head -n 750 > OUT:../clinvar_with_exac_example_750_rows.tsv'',
      ''echo Columns: $(gunzip -c clinvar.tsv.gz | head -n 1 | python -c "import sys;print(', '.join(['%s: %s'%(i+1,v) for l in sys.stdin for i,v in enumerate(l.split())]))") > OUT:clinvar_stats.txt &&\<newline>echo ================ >> OUT:clinvar_stats.txt &&\<newline>echo Total Rows: $(gunzip -c clinvar.tsv.gz | tail -n +2 | wc -l) >> OUT:clinvar_stats.txt &&\<newline>for i in 8 9 10 11 12 13 19 20 21 22 23; do \<newline>    echo ================ >> OUT:clinvar_stats.txt ;\<newline>    gunzip -c IN:clinvar.tsv.gz | head -n 1 | cut -f $i >> OUT:clinvar_stats.txt ;\<newline>    gunzip -c IN:clinvar.tsv.gz | tail -n +2 | cut -f $i | tr ';' '\<newline>' | sort | uniq -c | sort -r -n >> OUT:clinvar_stats.txt ;\<newline>done\<newline>'',
      ''cp IN:clinvar_stats.txt OUT:../clinvar_stats.txt'']\<close>
    using job_steps_in_order [OF d]
    by (simp add: sample_args_def basename_def)
  from d m show ?thesis by (intro conjI)
qed

subsection \<open>The tokens of a command\<close>



lemma tokens_from_append_space:
  "w = [] \<or> is_space (hd w) \<Longrightarrow> tokens_from acc (x @ w) = tokens_from acc x @ tokens_from [] w"
proof (induction x arbitrary: acc)
  case Nil
  then show ?case by (cases w) auto
next
  case (Cons c x)
  have ih: "tokens_from b (x @ w) = tokens_from b x @ tokens_from [] w" for b
    using Cons.IH [OF Cons.prems] .
  show ?case
  proof (cases "is_space c")
    case True
    then show ?thesis by (simp add: ih)
  next
    case False
    then show ?thesis by (simp add: ih)
  qed
qed


lemma tokens_parse_command:
  "tokens (''python -u IN:parse_clinvar_xml.py -x IN:'' @ x @
                 '' -o OUT:clinvar_table_raw.tsv -a '' @ asm) =
     [''python'', ''-u'', ''IN:parse_clinvar_xml.py'', ''-x''] @ tokens_from ''IN:'' x @
     [''-o'', ''OUT:clinvar_table_raw.tsv'', ''-a''] @ tokens asm"
proof -
  have sp: "'' -o OUT:clinvar_table_raw.tsv -a '' @ asm = [] \<or>
            is_space (hd ('' -o OUT:clinvar_table_raw.tsv -a '' @ asm))"
    by (simp add: is_space_def)
  have "tokens (''python -u IN:parse_clinvar_xml.py -x IN:'' @ x @
                 '' -o OUT:clinvar_table_raw.tsv -a '' @ asm) =
        [''python'', ''-u'', ''IN:parse_clinvar_xml.py'', ''-x''] @
        tokens_from ''IN:'' (x @ '' -o OUT:clinvar_table_raw.tsv -a '' @ asm)"
    by (simp add: tokens_def is_space_def)
  also have "tokens_from ''IN:'' (x @ '' -o OUT:clinvar_table_raw.tsv -a '' @ asm) =
        tokens_from ''IN:'' x @ tokens_from [] ('' -o OUT:clinvar_table_raw.tsv -a '' @ asm)"
    by (rule tokens_from_append_space [OF sp])
  also have "tokens_from [] ('' -o OUT:clinvar_table_raw.tsv -a '' @ asm) =
        [''-o'', ''OUT:clinvar_table_raw.tsv'', ''-a''] @ tokens asm"
    by (simp add: tokens_def is_space_def)
  finally show ?thesis by simp
qed

lemma tokens_normalize_command:
  "tokens (''python -u normalize.py -R IN:'' @ rg @
                 '' < IN:clinvar_table_raw.tsv > OUT:clinvar_table_normalized.tsv'') =
     [''python'', ''-u'', ''normalize.py'', ''-R''] @ tokens_from ''IN:'' rg @
     [''<'', ''IN:clinvar_table_raw.tsv'', ''>'', ''OUT:clinvar_table_normalized.tsv'']"
proof -
  have sp: "'' < IN:clinvar_table_raw.tsv > OUT:clinvar_table_normalized.tsv'' = [] \<or>
            is_space (hd '' < IN:clinvar_table_raw.tsv > OUT:clinvar_table_normalized.tsv'')"
    by (simp add: is_space_def)
  have "tokens (''python -u normalize.py -R IN:'' @ rg @
                 '' < IN:clinvar_table_raw.tsv > OUT:clinvar_table_normalized.tsv'') =
        [''python'', ''-u'', ''normalize.py'', ''-R''] @
        tokens_from ''IN:'' (rg @ '' < IN:clinvar_table_raw.tsv > OUT:clinvar_table_normalized.tsv'')"
    by (simp add: tokens_def is_space_def)
  also have "tokens_from ''IN:'' (rg @ '' < IN:clinvar_table_raw.tsv > OUT:clinvar_table_normalized.tsv'') =
        tokens_from ''IN:'' rg @
        tokens_from [] '' < IN:clinvar_table_raw.tsv > OUT:clinvar_table_normalized.tsv''"
    by (rule tokens_from_append_space [OF sp])
  also have "tokens_from [] '' < IN:clinvar_table_raw.tsv > OUT:clinvar_table_normalized.tsv'' =
        [''<'', ''IN:clinvar_table_raw.tsv'', ''>'', ''OUT:clinvar_table_normalized.tsv'']"
    by (simp add: is_space_def)
  finally show ?thesis by simp
qed

lemma tokens_join_command:
  "tokens (''Rscript IN:join_data.R IN:'' @ vst) =
     [''Rscript'', ''IN:join_data.R''] @ tokens_from ''IN:'' vst"
  by (simp add: tokens_def is_space_def)






subsection \<open>What the driver leaves for the job\<close>












end
